theory Spec2Isabelle
  imports Complex_Main
begin

section \<open>Conventions of the embedding\<close>

text \<open>
  The embedded code is \<^verbatim>\<open>bluemira/equilibria/equilibrium.py\<close> (the classes
  \<^verbatim>\<open>MHDState\<close>, \<^verbatim>\<open>CoilSetMHDState\<close>, \<^verbatim>\<open>Breakdown\<close> and
  \<^verbatim>\<open>Equilibrium\<close>) and the parameter check of
  \<^verbatim>\<open>bluemira/radiation_transport/advective_transport.py\<close>.

  \<^item> A Python float is a \<^typ>\<open>real\<close>: rounding is not modelled, and every concrete input
    below is a small dyadic number on which float and real arithmetic agree.
  \<^item> A 2-D \<^verbatim>\<open>numpy\<close> array on the grid is a list of rows; element-wise arithmetic is
    \<open>arr_map\<close> and \<open>arr_map2\<close>. All arrays of one state live on one grid, so the shapes
    agree wherever two arrays are combined.
  \<^item> An exception is a value of \<open>error\<close>, returned as \<open>Inl\<close>.
  \<^item> Mutation of \<^verbatim>\<open>self\<close> is state passing: a method takes the state and returns the
    new one.
  \<^item> The classes and functions the module imports from files that are not part of the
    embedded sources (the coil set, the profiles, the plasma field model, the controllers,
    the critical-point finder, the linear solver, the free-boundary operator, the optimiser)
    are parameters: abstract types \<open>'cs\<close>, \<open>'pr\<close>, \<open>'pl\<close>, \<open>'ct\<close>, \<open>'gr\<close> and a record of
    functions. Every theorem holds for every behaviour of these collaborators.
\<close>

type_synonym array = "real list list"

definition arr_map :: "(real \<Rightarrow> real) \<Rightarrow> array \<Rightarrow> array" where
  "arr_map f a = map (map f) a"

definition arr_map2 :: "(real \<Rightarrow> real \<Rightarrow> real) \<Rightarrow> array \<Rightarrow> array \<Rightarrow> array" where
  "arr_map2 f a b = map2 (map2 f) a b"

text \<open>The second argument of \<^verbatim>\<open>apply_boundary\<close> is a number or an array.\<close>

datatype npval = Scalar real | Arr array

datatype error =
    EquilibriaError string
  | ValueError string
  | NotImplementedError
  | AttributeError
  | IndexError
  | ZeroDivisionError
  | FileNotFoundError
  | TypeError
  | StopIteration
  | AdvectionTransportError string
  | ExternalOptError

section \<open>Data model\<close>

text \<open>
  Modelled from the spec: the class \<^verbatim>\<open>Grid\<close> (\<^verbatim>\<open>bluemira.equilibria.grid\<close>) is not
  among the sources. The spec gives it bounds, resolution, derived spacing and coordinate
  arrays; every attribute the embedded code reads is a field.
\<close>

record Grid =
  x_min :: real
  x_max :: real
  z_min :: real
  z_max :: real
  nx :: nat
  nz :: nat
  x_size :: real
  z_size :: real
  z_mid :: real
  x_1d :: "real list"
  z_1d :: "real list"
  g_x :: array
  g_z :: array
  g_dx :: real
  g_dz :: real

text \<open>Critical points \<^verbatim>\<open>Opoint(x, z, psi)\<close> and \<^verbatim>\<open>Xpoint(x, z, psi)\<close>.\<close>

datatype Opoint = Opoint (o_x: real) (o_z: real) (o_psi: real)

datatype Xpoint = Xpoint (xp_x: real) (xp_z: real) (xp_psi: real)

text \<open>\<^verbatim>\<open>Limiter(e.xlim, e.zlim)\<close>, with its attributes \<^verbatim>\<open>x\<close> and \<^verbatim>\<open>z\<close>.\<close>

datatype Limiter = Limiter (lim_x: "real list") (lim_z: "real list")

text \<open>
  The inheritance chain \<^verbatim>\<open>MHDState\<close> \<open>\<rightarrow>\<close> \<^verbatim>\<open>CoilSetMHDState\<close> \<open>\<rightarrow>\<close>
  \<^verbatim>\<open>Breakdown\<close>, \<^verbatim>\<open>Equilibrium\<close> is a chain of record extensions. The attributes
  \<^verbatim>\<open>self.x\<close>, \<^verbatim>\<open>self.z\<close>, \<^verbatim>\<open>self.dx\<close>, \<^verbatim>\<open>self.dz\<close> are \<open>st_x\<close>, \<open>st_z\<close>,
  \<open>st_dx\<close>, \<open>st_dz\<close>.
\<close>

record MHDState =
  st_x :: array
  st_z :: array
  st_dx :: real
  st_dz :: real
  grid :: Grid
  limiter :: "Limiter option"

record ('cs, 'gr) CoilSetMHDState = MHDState +
  psi_green :: 'gr
  bx_green :: 'gr
  bz_green :: 'gr
  coilset :: 'cs

record ('cs, 'gr, 'pl) Breakdown = "('cs, 'gr) CoilSetMHDState" +
  bd_plasma :: 'pl
  breakdown_point :: "real \<times> real"
  bd_filename :: "string option"

text \<open>
  The result of a flux query: the map on the whole grid (no coordinates given) or the
  value at the coordinates.
\<close>

datatype flux = FullMap array | AtPoint real

section \<open>The collaborators of the breakdown state\<close>

text \<open>
  The methods of \<^verbatim>\<open>CoilSet\<close> the breakdown state calls, the constructor
  \<^verbatim>\<open>NoPlasmaCoil\<close> and \<^verbatim>\<open>apply_boundary\<close>. \<open>cs_psi\<close> is \<^verbatim>\<open>coilset.psi(x, z)\<close> at
  coordinates, \<open>cs_psi_arr\<close> the same method on the coordinate arrays of the grid,
  \<open>cs_psi_greens\<close> is \<^verbatim>\<open>coilset._psi_greens\<close>.
\<close>

record ('cs, 'gr, 'pl) coil_ext =
  psi_response :: "'cs \<Rightarrow> array \<Rightarrow> array \<Rightarrow> 'gr"
  Bx_response :: "'cs \<Rightarrow> array \<Rightarrow> array \<Rightarrow> 'gr"
  Bz_response :: "'cs \<Rightarrow> array \<Rightarrow> array \<Rightarrow> 'gr"
  cs_psi :: "'cs \<Rightarrow> real option \<Rightarrow> real option \<Rightarrow> real"
  cs_psi_arr :: "'cs \<Rightarrow> array \<Rightarrow> array \<Rightarrow> array"
  cs_psi_greens :: "'cs \<Rightarrow> 'gr \<Rightarrow> array"
  NoPlasmaCoil :: "Grid \<Rightarrow> 'pl"
  apply_boundary :: "array \<Rightarrow> npval \<Rightarrow> array"

section \<open>\<^verbatim>\<open>CoilSetMHDState._set_init_plasma\<close>\<close>

text \<open>
  \<^verbatim>\<open>zm = 1 - grid.z_max / (grid.z_max - grid.z_min)\<close> divides two floats and raises on a
  grid of zero height. Without a flux map the Gaussian initial guess is built on the
  normalised grid and its edges are set to zero. The Green's functions are remapped in
  both cases; the function returns them with the flux map.
\<close>

definition initial_psi_guess :: "array \<Rightarrow> array \<Rightarrow> Grid \<Rightarrow> real \<Rightarrow> array" where
  "initial_psi_guess xa za g zm =
     (let xn = arr_map (\<lambda>v. v / x_max g) xa;
          zn = arr_map (\<lambda>v. (v - z_min g) / (z_max g - z_min g)) za
      in arr_map2 (\<lambda>a b. 100 * exp (- ((a - 0.5)\<^sup>2 + (b - zm)\<^sup>2) / 0.1)) xn zn)"

definition remap_greens ::
  "('cs, 'gr, 'pl, 'x) coil_ext_scheme \<Rightarrow> 'cs \<Rightarrow> array \<Rightarrow> array \<Rightarrow> 'gr \<times> 'gr \<times> 'gr" where
  "remap_greens ext cs xa za =
     (psi_response ext cs xa za, Bx_response ext cs xa za, Bz_response ext cs xa za)"

definition set_init_plasma ::
  "('cs, 'gr, 'pl, 'x) coil_ext_scheme \<Rightarrow> 'cs \<Rightarrow> Grid \<Rightarrow> array option
     \<Rightarrow> error + (array \<times> 'gr \<times> 'gr \<times> 'gr)" where
  "set_init_plasma ext cs g psi =
     (if z_max g - z_min g = 0 then Inl ZeroDivisionError
      else
        let zm = 1 - z_max g / (z_max g - z_min g);
            psi' = (case psi of
                      None \<Rightarrow> apply_boundary ext (initial_psi_guess (g_x g) (g_z g) g zm) (Scalar 0)
                    | Some p \<Rightarrow> p)
        in Inr (psi', remap_greens ext cs (g_x g) (g_z g)))"

section \<open>The breakdown state\<close>

text \<open>
  \<^verbatim>\<open>Breakdown.__init__(coilset, grid, psi, filename, **kwargs)\<close>. The two keyword
  arguments the constructor looks up are \<open>kw_limiter\<close> and \<open>kw_breakdown_point\<close>;
  \<open>None\<close> is a missing key.
\<close>

definition Breakdown_init ::
  "('cs, 'gr, 'pl, 'x) coil_ext_scheme \<Rightarrow> 'cs \<Rightarrow> Grid \<Rightarrow> array option \<Rightarrow> string option
     \<Rightarrow> Limiter option \<Rightarrow> (real \<times> real) option \<Rightarrow> error + ('cs, 'gr, 'pl) Breakdown" where
  "Breakdown_init ext cs g psi fname kw_limiter kw_breakdown_point =
     (case set_init_plasma ext cs g psi of
        Inl e \<Rightarrow> Inl e
      | Inr (psi', pg, bxg, bzg) \<Rightarrow>
          let x_mid = x_min g + 0.5 * (x_max g + x_min g)
          in Inr \<lparr> st_x = g_x g, st_z = g_z g, st_dx = g_dx g, st_dz = g_dz g, grid = g,
                   limiter = kw_limiter,
                   psi_green = pg, bx_green = bxg, bz_green = bzg, coilset = cs,
                   bd_plasma = NoPlasmaCoil ext g,
                   breakdown_point = (case kw_breakdown_point of
                                        None \<Rightarrow> (x_mid, 0)
                                      | Some p \<Rightarrow> p),
                   bd_filename = fname \<rparr>)"

definition set_breakdown_point ::
  "('cs, 'gr, 'pl) Breakdown \<Rightarrow> real \<Rightarrow> real \<Rightarrow> ('cs, 'gr, 'pl) Breakdown" where
  "set_breakdown_point b x_bd z_bd = b\<lparr>breakdown_point := (x_bd, z_bd)\<rparr>"

text \<open>\<^verbatim>\<open>Breakdown.psi(x, z)\<close>: the coil set alone, from the Green's functions or directly.\<close>

definition Breakdown_psi ::
  "('cs, 'gr, 'pl, 'x) coil_ext_scheme \<Rightarrow> ('cs, 'gr, 'pl) Breakdown
     \<Rightarrow> real option \<Rightarrow> real option \<Rightarrow> flux" where
  "Breakdown_psi ext b x z =
     (if x = None \<and> z = None then FullMap (cs_psi_greens ext (coilset b) (psi_green b))
      else AtPoint (cs_psi ext (coilset b) x z))"

text \<open>The property \<^verbatim>\<open>breakdown_psi\<close>: \<^verbatim>\<open>self.psi(*self.breakdown_point)\<close>.\<close>

definition breakdown_psi ::
  "('cs, 'gr, 'pl, 'x) coil_ext_scheme \<Rightarrow> ('cs, 'gr, 'pl) Breakdown \<Rightarrow> flux" where
  "breakdown_psi ext b =
     Breakdown_psi ext b (Some (fst (breakdown_point b))) (Some (snd (breakdown_point b)))"

section \<open>The equilibrium state\<close>

text \<open>
  \<^verbatim>\<open>GSSolver(grid, force_symmetry)\<close> and \<^verbatim>\<open>FreeBoundary(grid)\<close> are objects built from
  their constructor arguments and then called; what a call computes is a parameter.
\<close>

datatype GSSolver = GSSolver Grid bool

datatype FreeBoundary = FreeBoundary Grid

text \<open>
  The attributes of \<^verbatim>\<open>Equilibrium\<close>: \<open>jtor\<close> is \<^verbatim>\<open>_jtor\<close>, \<open>o_points\<close> and
  \<open>x_points\<close> are the critical-point cache \<^verbatim>\<open>_o_points\<close>, \<^verbatim>\<open>_x_points\<close>, \<open>li_flag\<close>,
  \<open>li\<close>, \<open>li_iter\<close>, \<open>li_temp\<close> are \<^verbatim>\<open>_li_flag\<close>, \<^verbatim>\<open>_li\<close>, \<^verbatim>\<open>_li_iter\<close>,
  \<^verbatim>\<open>_li_temp\<close> (the last three are set only for an inductance-matching profile and are
  read only then), \<open>kwargs_vcontrol\<close> is \<^verbatim>\<open>_kwargs["vcontrol"]\<close>. \<open>None\<close> in an option
  field is Python's \<^verbatim>\<open>None\<close>. The attributes \<^verbatim>\<open>_eqdsk\<close> and \<^verbatim>\<open>_plasmacoil\<close>, which no
  embedded method reads, are left out.
\<close>

record ('cs, 'gr, 'pl, 'pr, 'ct) Equilibrium = "('cs, 'gr) CoilSetMHDState" +
  jtor :: "array option"
  profiles :: 'pr
  o_points :: "Opoint list option"
  x_points :: "Xpoint list option"
  solver :: GSSolver
  li_flag :: bool
  li :: real
  li_iter :: nat
  li_temp :: "real option"
  plasma :: 'pl
  force_symmetry :: bool
  controller :: "'ct option"
  boundary :: FreeBoundary
  filename :: "string option"
  kwargs_vcontrol :: "string option"

text \<open>
  The collaborators of the equilibrium state, added to those of the coil set:
  \<^item> \<open>find_OX_points\<close>: \<^verbatim>\<open>find_OX_points(x, z, psi, limiter=...)\<close>;
  \<^item> \<open>profiles_jtor\<close>: \<^verbatim>\<open>profiles.jtor(x, z, psi, o_points, x_points)\<close>; the two
    critical-point arguments are whatever \<^verbatim>\<open>get_OX_points\<close> returned, a list or
    \<^verbatim>\<open>None\<close>;
  \<^item> \<open>PlasmaCoil\<close>: the constructor \<^verbatim>\<open>PlasmaCoil(plasma_psi, j_tor, grid)\<close>;
    \<open>plasma_psi\<close> is \<^verbatim>\<open>plasma.psi()\<close> and \<open>plasma_psi_at\<close> is \<^verbatim>\<open>plasma.psi(x, z)\<close>;
  \<^item> \<open>call_boundary\<close>: \<^verbatim>\<open>self.boundary(plasma_psi, jtor)\<close>, which writes the edges of
    its first argument in place; the model returns the array written;
  \<^item> \<open>call_solver\<close>: \<^verbatim>\<open>self._solver(rhs)\<close>; \<open>MU_0\<close>: the constant of that name;
  \<^item> \<open>DummyController\<close>, \<open>VirtualController\<close>: the constructors of the two
    controllers, the second one applied to the equilibrium itself and the gain;
    \<open>stabilise\<close> is \<^verbatim>\<open>controller.stabilise()\<close>, which may read the equilibrium the
    controller refers to and changes the controller only; \<open>controller_psi\<close> is
    \<^verbatim>\<open>controller.psi()\<close>;
  \<^item> \<open>is_BetaLiIpProfile\<close>, \<open>l_i_target\<close>: \<^verbatim>\<open>isinstance(profiles, BetaLiIpProfile)\<close>
    and \<^verbatim>\<open>profiles._l_i_target\<close>.
\<close>

record ('cs, 'gr, 'pl, 'pr, 'ct) eq_ext = "('cs, 'gr, 'pl) coil_ext" +
  find_OX_points :: "array \<Rightarrow> array \<Rightarrow> array \<Rightarrow> Limiter option \<Rightarrow> Opoint list \<times> Xpoint list"
  profiles_jtor ::
    "'pr \<Rightarrow> array \<Rightarrow> array \<Rightarrow> array \<Rightarrow> Opoint list option \<Rightarrow> Xpoint list option \<Rightarrow> array"
  PlasmaCoil :: "array \<Rightarrow> array option \<Rightarrow> Grid \<Rightarrow> 'pl"
  plasma_psi :: "'pl \<Rightarrow> array"
  plasma_psi_at :: "'pl \<Rightarrow> real option \<Rightarrow> real option \<Rightarrow> real"
  call_boundary :: "FreeBoundary \<Rightarrow> array \<Rightarrow> array \<Rightarrow> array"
  call_solver :: "GSSolver \<Rightarrow> array \<Rightarrow> array"
  MU_0 :: real
  DummyController :: "array \<Rightarrow> 'ct"
  VirtualController :: "('cs, 'gr, 'pl, 'pr, 'ct) Equilibrium \<Rightarrow> real \<Rightarrow> 'ct"
  stabilise :: "'ct \<Rightarrow> ('cs, 'gr, 'pl, 'pr, 'ct) Equilibrium \<Rightarrow> 'ct"
  controller_psi :: "'ct \<Rightarrow> array"
  is_BetaLiIpProfile :: "'pr \<Rightarrow> bool"
  l_i_target :: "'pr \<Rightarrow> real"

subsection \<open>\<^verbatim>\<open>_update_plasma\<close>, \<^verbatim>\<open>set_vcontrol\<close> and the constructor\<close>

definition update_plasma ::
  "('cs, 'gr, 'pl, 'pr, 'ct, 'x) eq_ext_scheme \<Rightarrow> ('cs, 'gr, 'pl, 'pr, 'ct) Equilibrium
     \<Rightarrow> array \<Rightarrow> array option \<Rightarrow> ('cs, 'gr, 'pl, 'pr, 'ct) Equilibrium" where
  "update_plasma ext s new_psi j_tor = s\<lparr>plasma := PlasmaCoil ext new_psi j_tor (grid s)\<rparr>"

text \<open>
  \<^verbatim>\<open>set_vcontrol(vcontrol)\<close>: the branches in the order of the source. On an exception
  the state is the one the method was called on.
\<close>

definition set_vcontrol ::
  "('cs, 'gr, 'pl, 'pr, 'ct, 'x) eq_ext_scheme \<Rightarrow> ('cs, 'gr, 'pl, 'pr, 'ct) Equilibrium
     \<Rightarrow> string option \<Rightarrow> error + ('cs, 'gr, 'pl, 'pr, 'ct) Equilibrium" where
  "set_vcontrol ext s vcontrol =
     (if vcontrol = Some ''virtual'' then
        Inr (s\<lparr>controller := Some (VirtualController ext s 2.2)\<rparr>)
      else if vcontrol = Some ''feedback'' then Inl NotImplementedError
      else if vcontrol = None then
        Inr (s\<lparr>controller := Some (DummyController ext (plasma_psi ext (plasma s)))\<rparr>)
      else Inl (ValueError ''Please select a numerical stabilisation strategy''))"

text \<open>
  \<^verbatim>\<open>Equilibrium.__init__\<close>. The statements run in the order of the source:
  \<^verbatim>\<open>set_grid\<close> (with the solver), \<^verbatim>\<open>_set_init_plasma\<close> (the coil flux is taken off the
  flux map, the plasma field model is built), the free-boundary operator, then
  \<^verbatim>\<open>set_vcontrol\<close> on the object as it is at that moment (no controller, the limiter
  of the base class, no file name), and only then the limiter, the file name and the
  keyword record. An exception leaves no object.
\<close>

definition Equilibrium_init ::
  "('cs, 'gr, 'pl, 'pr, 'ct, 'x) eq_ext_scheme \<Rightarrow> 'cs \<Rightarrow> Grid \<Rightarrow> 'pr \<Rightarrow> bool \<Rightarrow> string option
     \<Rightarrow> Limiter option \<Rightarrow> array option \<Rightarrow> array option \<Rightarrow> string option
     \<Rightarrow> error + ('cs, 'gr, 'pl, 'pr, 'ct) Equilibrium" where
  "Equilibrium_init ext cs g pr fsym vcontrol lm psi jt fname =
     (case set_init_plasma ext cs g psi of
        Inl e \<Rightarrow> Inl e
      | Inr (psi', pg, bxg, bzg) \<Rightarrow>
          let psi'' = arr_map2 (\<lambda>a b. a - b) psi' (cs_psi_arr ext cs (g_x g) (g_z g));
              s0 = \<lparr> st_x = g_x g, st_z = g_z g, st_dx = g_dx g, st_dz = g_dz g, grid = g,
                     limiter = None,
                     psi_green = pg, bx_green = bxg, bz_green = bzg, coilset = cs,
                     jtor = jt, profiles = pr, o_points = None, x_points = None,
                     solver = GSSolver g fsym,
                     li_flag = is_BetaLiIpProfile ext pr, li = l_i_target ext pr,
                     li_iter = 0, li_temp = None,
                     plasma = PlasmaCoil ext psi'' jt g,
                     force_symmetry = fsym, controller = None,
                     boundary = FreeBoundary g, filename = None, kwargs_vcontrol = None \<rparr>
          in (case set_vcontrol ext s0 vcontrol of
                Inl e \<Rightarrow> Inl e
              | Inr s1 \<Rightarrow>
                  Inr (s1\<lparr>limiter := lm, filename := fname, kwargs_vcontrol := vcontrol\<rparr>)))"

subsection \<open>\<^verbatim>\<open>Equilibrium.psi\<close>\<close>

text \<open>
  \<^verbatim>\<open>psi()\<close> without coordinates: the controller is stabilised when a current density is
  cached, and the map is plasma + coils + controller. Without a controller the call
  raises. The method returns the state as the call leaves it.
\<close>

definition arr_add :: "array \<Rightarrow> array \<Rightarrow> array" where
  "arr_add a b = arr_map2 (\<lambda>u v. u + v) a b"

definition stabilised_controller ::
  "('cs, 'gr, 'pl, 'pr, 'ct, 'x) eq_ext_scheme \<Rightarrow> ('cs, 'gr, 'pl, 'pr, 'ct) Equilibrium
     \<Rightarrow> 'ct \<Rightarrow> 'ct" where
  "stabilised_controller ext s c = (if jtor s \<noteq> None then stabilise ext c s else c)"

definition psi_full ::
  "('cs, 'gr, 'pl, 'pr, 'ct, 'x) eq_ext_scheme \<Rightarrow> ('cs, 'gr, 'pl, 'pr, 'ct) Equilibrium
     \<Rightarrow> (error + array) \<times> ('cs, 'gr, 'pl, 'pr, 'ct) Equilibrium" where
  "psi_full ext s =
     (case controller s of
        None \<Rightarrow> (Inl AttributeError, s)
      | Some c \<Rightarrow>
          let c' = stabilised_controller ext s c
          in (Inr (arr_add (arr_add (plasma_psi ext (plasma s))
                                    (cs_psi_greens ext (coilset s) (psi_green s)))
                           (controller_psi ext c')),
              s\<lparr>controller := Some c'\<rparr>))"

text \<open>\<^verbatim>\<open>psi(x, z)\<close> with a coordinate: plasma + coils at the point.\<close>

definition psi_at ::
  "('cs, 'gr, 'pl, 'pr, 'ct, 'x) eq_ext_scheme \<Rightarrow> ('cs, 'gr, 'pl, 'pr, 'ct) Equilibrium
     \<Rightarrow> real option \<Rightarrow> real option \<Rightarrow> real" where
  "psi_at ext s x z = plasma_psi_at ext (plasma s) x z + cs_psi ext (coilset s) x z"

definition Equilibrium_psi ::
  "('cs, 'gr, 'pl, 'pr, 'ct, 'x) eq_ext_scheme \<Rightarrow> ('cs, 'gr, 'pl, 'pr, 'ct) Equilibrium
     \<Rightarrow> real option \<Rightarrow> real option
     \<Rightarrow> (error + flux) \<times> ('cs, 'gr, 'pl, 'pr, 'ct) Equilibrium" where
  "Equilibrium_psi ext s x z =
     (if x = None \<and> z = None then
        (case psi_full ext s of
           (Inl e, s') \<Rightarrow> (Inl e, s')
         | (Inr a, s') \<Rightarrow> (Inr (FullMap a), s'))
      else (Inr (AtPoint (psi_at ext s x z)), s))"

subsection \<open>The critical-point cache\<close>

text \<open>
  The idiom \<^verbatim>\<open>if psi is None: psi = self.psi()\<close>: the flux map a method works on, and
  the state after the query.
\<close>

definition starting_flux ::
  "('cs, 'gr, 'pl, 'pr, 'ct, 'x) eq_ext_scheme \<Rightarrow> ('cs, 'gr, 'pl, 'pr, 'ct) Equilibrium
     \<Rightarrow> array option \<Rightarrow> (error + array) \<times> ('cs, 'gr, 'pl, 'pr, 'ct) Equilibrium" where
  "starting_flux ext s psi = (case psi of None \<Rightarrow> psi_full ext s | Some p \<Rightarrow> (Inr p, s))"

definition clear_OX_points ::
  "('cs, 'gr, 'pl, 'pr, 'ct) Equilibrium \<Rightarrow> ('cs, 'gr, 'pl, 'pr, 'ct) Equilibrium" where
  "clear_OX_points s = s\<lparr>o_points := None, x_points := None\<rparr>"

text \<open>
  \<^verbatim>\<open>get_OX_points(psi, force_update)\<close>: a search (on the flux map given, or on
  \<^verbatim>\<open>self.psi()\<close>) when both cache entries are \<^verbatim>\<open>None\<close> or an update is forced; the
  result is stored and returned. Otherwise the cache is returned as it is.
\<close>

definition get_OX_points ::
  "('cs, 'gr, 'pl, 'pr, 'ct, 'x) eq_ext_scheme \<Rightarrow> ('cs, 'gr, 'pl, 'pr, 'ct) Equilibrium
     \<Rightarrow> array option \<Rightarrow> bool
     \<Rightarrow> (error + (Opoint list option \<times> Xpoint list option))
          \<times> ('cs, 'gr, 'pl, 'pr, 'ct) Equilibrium" where
  "get_OX_points ext s psi force_update =
     (if (o_points s = None \<and> x_points s = None) \<or> force_update then
        (case starting_flux ext s psi of
           (Inl e, s1) \<Rightarrow> (Inl e, s1)
         | (Inr p, s1) \<Rightarrow>
             (case find_OX_points ext (st_x s1) (st_z s1) p (limiter s1) of
                (ops, xps) \<Rightarrow>
                  (Inr (Some ops, Some xps), s1\<lparr>o_points := Some ops, x_points := Some xps\<rparr>)))
      else (Inr (o_points s, x_points s), s))"

subsection \<open>\<^verbatim>\<open>Equilibrium.solve\<close>\<close>

text \<open>
  The linear solve shared by \<^verbatim>\<open>solve\<close> and the objective of \<^verbatim>\<open>solve_li\<close>: the
  free-boundary update of the plasma flux, the right-hand side
  \<^verbatim>\<open>-MU_0 * self.x * jtor\<close> with the boundary values written into it, the solver, and
  \<^verbatim>\<open>_update_plasma\<close>.
\<close>

definition solved_plasma_psi ::
  "('cs, 'gr, 'pl, 'pr, 'ct, 'x) eq_ext_scheme \<Rightarrow> ('cs, 'gr, 'pl, 'pr, 'ct) Equilibrium
     \<Rightarrow> array \<Rightarrow> array" where
  "solved_plasma_psi ext s jt =
     (let plasma_psi0 = call_boundary ext (boundary s) (plasma_psi ext (plasma s)) jt;
          rhs = arr_map2 (\<lambda>xv jv. - MU_0 ext * xv * jv) (st_x s) jt;
          rhs' = apply_boundary ext rhs (Arr plasma_psi0)
      in call_solver ext (solver s) rhs')"

definition gs_step ::
  "('cs, 'gr, 'pl, 'pr, 'ct, 'x) eq_ext_scheme \<Rightarrow> ('cs, 'gr, 'pl, 'pr, 'ct) Equilibrium
     \<Rightarrow> array \<Rightarrow> ('cs, 'gr, 'pl, 'pr, 'ct) Equilibrium" where
  "gs_step ext s jt = update_plasma ext s (solved_plasma_psi ext s jt) (Some jt)"

text \<open>Python's truth value of the list of O-points: \<^verbatim>\<open>None\<close> and \<^verbatim>\<open>[]\<close> are false.\<close>

definition falsy :: "'a list option \<Rightarrow> bool" where
  "falsy l = (l = None \<or> l = Some [])"

text \<open>
  \<^verbatim>\<open>solve(jtor, psi)\<close>. The result is the exception raised, if any, and the state the
  call leaves behind: an exception does not undo the assignments made before it.
\<close>

definition solve ::
  "('cs, 'gr, 'pl, 'pr, 'ct, 'x) eq_ext_scheme \<Rightarrow> ('cs, 'gr, 'pl, 'pr, 'ct) Equilibrium
     \<Rightarrow> array option \<Rightarrow> array option
     \<Rightarrow> error option \<times> ('cs, 'gr, 'pl, 'pr, 'ct) Equilibrium" where
  "solve ext s jtor_arg psi_arg =
     (let s1 = clear_OX_points s in
      case jtor_arg of
        Some jt \<Rightarrow> (None, (gs_step ext s1 jt)\<lparr>jtor := Some jt\<rparr>)
      | None \<Rightarrow>
          (case starting_flux ext s1 psi_arg of
             (Inl e, s2) \<Rightarrow> (Some e, s2)
           | (Inr p, s2) \<Rightarrow>
               (case get_OX_points ext s2 (Some p) True of
                  (Inl e, s3) \<Rightarrow> (Some e, s3)
                | (Inr (ops, xps), s3) \<Rightarrow>
                    if falsy ops then
                      (Some (EquilibriaError ''No O-point found in equilibrium.''), s3)
                    else
                      let jt = profiles_jtor ext (profiles s3) (st_x s3) (st_z s3) p ops xps
                      in (None, (gs_step ext s3 jt)\<lparr>jtor := Some jt\<rparr>))))"

subsection \<open>\<^verbatim>\<open>Equilibrium.solve_li\<close>\<close>

text \<open>
  \<^verbatim>\<open>scipy.optimize.minimize\<close> is not code of the repository. What the repository's code
  sees of it is a sequence of calls of the objective, each at a point the optimiser
  chooses from the values returned so far, and then a result. An optimiser is therefore
  a tree: \<open>Finish res\<close> returns the result, \<open>Evaluate x k\<close> calls the objective at \<open>x\<close>
  and goes on as \<open>k v\<close> with the value \<open>v\<close> returned. The tree is well-founded: every run
  of the optimiser ends after finitely many evaluations, which is its iteration budget
  (\<^verbatim>\<open>maxiter = 30\<close>).

  The objective changes the equilibrium and may raise; an exception raised by the
  objective leaves the optimiser at once, with the state as it is.
\<close>

datatype 'res optimiser = Finish 'res | Evaluate "real list" "real \<Rightarrow> 'res optimiser"

primrec run_minimize ::
  "'res optimiser \<Rightarrow> (real list \<Rightarrow> 's \<Rightarrow> (error + real) \<times> 's) \<Rightarrow> 's
     \<Rightarrow> (error + 'res) \<times> 's" where
  "run_minimize (Finish r) f s = (Inr r, s)"
| "run_minimize (Evaluate x k) f s =
     (case f x s of
        (Inl e, s') \<Rightarrow> (Inl e, s')
      | (Inr v, s') \<Rightarrow> run_minimize (k v) f s')"

text \<open>
  The further collaborators of \<^verbatim>\<open>solve_li\<close>: the field maps of the plasma and the
  coil set (\<^verbatim>\<open>plasma.Bx()\<close>, \<^verbatim>\<open>coilset._Bx_greens\<close>, and the same for \<open>Bz\<close>),
  \<^verbatim>\<open>in_plasma\<close>, \<^verbatim>\<open>calc_li3minargs\<close>, the profile's
  \<^verbatim>\<open>shape.adjust_parameters\<close>, \<^verbatim>\<open>shape.coeffs\<close>, \<^verbatim>\<open>R_0\<close>, \<^verbatim>\<open>I_p\<close> and
  \<^verbatim>\<open>_l_i_rel_tol\<close>, \<^verbatim>\<open>abs_rel_difference\<close>, the optimiser \<^verbatim>\<open>minimize\<close> as a function of
  the starting point and the bounds, and \<^verbatim>\<open>process_scipy_result\<close>.
\<close>

record ('cs, 'gr, 'pl, 'pr, 'ct, 'res) li_ext = "('cs, 'gr, 'pl, 'pr, 'ct) eq_ext" +
  plasma_Bx :: "'pl \<Rightarrow> array"
  plasma_Bz :: "'pl \<Rightarrow> array"
  cs_Bx_greens :: "'cs \<Rightarrow> 'gr \<Rightarrow> array"
  cs_Bz_greens :: "'cs \<Rightarrow> 'gr \<Rightarrow> array"
  in_plasma ::
    "array \<Rightarrow> array \<Rightarrow> array \<Rightarrow> Opoint list option \<Rightarrow> Xpoint list option \<Rightarrow> bool list list"
  calc_li3minargs ::
    "array \<Rightarrow> array \<Rightarrow> array \<Rightarrow> array \<Rightarrow> real \<Rightarrow> real \<Rightarrow> real \<Rightarrow> real \<Rightarrow> bool list list \<Rightarrow> real"
  adjust_parameters :: "'pr \<Rightarrow> real list \<Rightarrow> 'pr"
  shape_coeffs :: "'pr \<Rightarrow> real list"
  R_0 :: "'pr \<Rightarrow> real"
  I_p :: "'pr \<Rightarrow> real"
  l_i_rel_tol :: "'pr \<Rightarrow> real"
  abs_rel_difference :: "real \<Rightarrow> real \<Rightarrow> real"
  minimize :: "real list \<Rightarrow> (real \<times> real) list \<Rightarrow> 'res optimiser"
  process_scipy_result :: "'res \<Rightarrow> error + real list"

text \<open>
  \<^verbatim>\<open>Bx()\<close>, \<^verbatim>\<open>Bz()\<close> and \<^verbatim>\<open>Bp()\<close> on the whole grid; \<^verbatim>\<open>np.hypot\<close> is the
  element-wise \<open>sqrt (a\<^sup>2 + b\<^sup>2)\<close>.
\<close>

definition Bx_full ::
  "('cs, 'gr, 'pl, 'pr, 'ct, 'res, 'x) li_ext_scheme \<Rightarrow> ('cs, 'gr, 'pl, 'pr, 'ct) Equilibrium
     \<Rightarrow> array" where
  "Bx_full ext s = arr_add (plasma_Bx ext (plasma s)) (cs_Bx_greens ext (coilset s) (bx_green s))"

definition Bz_full ::
  "('cs, 'gr, 'pl, 'pr, 'ct, 'res, 'x) li_ext_scheme \<Rightarrow> ('cs, 'gr, 'pl, 'pr, 'ct) Equilibrium
     \<Rightarrow> array" where
  "Bz_full ext s = arr_add (plasma_Bz ext (plasma s)) (cs_Bz_greens ext (coilset s) (bz_green s))"

definition Bp_full ::
  "('cs, 'gr, 'pl, 'pr, 'ct, 'res, 'x) li_ext_scheme \<Rightarrow> ('cs, 'gr, 'pl, 'pr, 'ct) Equilibrium
     \<Rightarrow> array" where
  "Bp_full ext s = arr_map2 (\<lambda>a b. sqrt (a\<^sup>2 + b\<^sup>2)) (Bx_full ext s) (Bz_full ext s)"

text \<open>
  The objective \<^verbatim>\<open>minimise_dli(x)\<close>, a closure over the flux map, the critical points
  and the mask computed before the optimisation: it adjusts the profile, solves once,
  computes the inductance and stores it with the current density; within the tolerance
  it raises \<^verbatim>\<open>StopIteration\<close>, otherwise it counts the iteration and returns the
  distance to the target.
\<close>

definition minimise_dli ::
  "('cs, 'gr, 'pl, 'pr, 'ct, 'res, 'x) li_ext_scheme \<Rightarrow> array \<Rightarrow> Opoint list option
     \<Rightarrow> Xpoint list option \<Rightarrow> bool list list \<Rightarrow> real list
     \<Rightarrow> ('cs, 'gr, 'pl, 'pr, 'ct) Equilibrium
     \<Rightarrow> (error + real) \<times> ('cs, 'gr, 'pl, 'pr, 'ct) Equilibrium" where
  "minimise_dli ext psi ops xps msk x s =
     (let s1 = s\<lparr>profiles := adjust_parameters ext (profiles s) x\<rparr>;
          jtor_opt = profiles_jtor ext (profiles s1) (st_x s1) (st_z s1) psi ops xps;
          s2 = gs_step ext s1 jtor_opt
      in case psi_full ext s2 of
           (Inl e, s3) \<Rightarrow> (Inl e, s3)
         | (Inr psi_map, s3) \<Rightarrow>
             let li_new = calc_li3minargs ext (st_x s3) (st_z s3) psi_map (Bp_full ext s3)
                            (R_0 ext (profiles s3)) (I_p ext (profiles s3))
                            (st_dx s3) (st_dz s3) msk;
                 s4 = s3\<lparr>li_temp := Some li_new, jtor := Some jtor_opt\<rparr>
             in if abs_rel_difference ext li_new (li s4) \<le> l_i_rel_tol ext (profiles s4)
                then (Inl StopIteration, s4)
                else (Inr \<bar>li s4 - li_new\<bar>, s4\<lparr>li_iter := li_iter s4 + 1\<rparr>))"

text \<open>
  The \<^verbatim>\<open>try\<close> block of \<^verbatim>\<open>solve_li\<close>: the bounds, the optimiser, the processing of
  its result and the adjustment of the profile to it; \<^verbatim>\<open>except StopIteration: pass\<close>.
\<close>

definition li_try ::
  "('cs, 'gr, 'pl, 'pr, 'ct, 'res, 'x) li_ext_scheme \<Rightarrow> array \<Rightarrow> Opoint list option
     \<Rightarrow> Xpoint list option \<Rightarrow> bool list list \<Rightarrow> ('cs, 'gr, 'pl, 'pr, 'ct) Equilibrium
     \<Rightarrow> error option \<times> ('cs, 'gr, 'pl, 'pr, 'ct) Equilibrium" where
  "li_try ext psi ops xps msk s =
     (let coeffs = shape_coeffs ext (profiles s);
          bounds = map (\<lambda>c. (- 1, 3)) coeffs
      in case run_minimize (minimize ext coeffs bounds) (minimise_dli ext psi ops xps msk) s of
           (Inl e, s') \<Rightarrow> if e = StopIteration then (None, s') else (Some e, s')
         | (Inr res, s') \<Rightarrow>
             (case process_scipy_result ext res of
                Inl e \<Rightarrow> if e = StopIteration then (None, s') else (Some e, s')
              | Inr alpha_star \<Rightarrow>
                  (None, s'\<lparr>profiles := adjust_parameters ext (profiles s') alpha_star\<rparr>)))"

text \<open>\<^verbatim>\<open>solve_li(jtor, psi)\<close>; the argument \<^verbatim>\<open>jtor\<close> is not used.\<close>

definition solve_li ::
  "('cs, 'gr, 'pl, 'pr, 'ct, 'res, 'x) li_ext_scheme \<Rightarrow> ('cs, 'gr, 'pl, 'pr, 'ct) Equilibrium
     \<Rightarrow> array option \<Rightarrow> array option
     \<Rightarrow> error option \<times> ('cs, 'gr, 'pl, 'pr, 'ct) Equilibrium" where
  "solve_li ext s jtor_arg psi_arg =
     (if \<not> li_flag s then
        (Some (EquilibriaError ''Cannot use solve_li without the BetaLiIpProfile.''), s)
      else
        let s1 = (clear_OX_points s)\<lparr>li_iter := 0\<rparr> in
        case starting_flux ext s1 psi_arg of
          (Inl e, s2) \<Rightarrow> (Some e, s2)
        | (Inr p, s2) \<Rightarrow>
            (case get_OX_points ext s2 (Some p) True of
               (Inl e, s3) \<Rightarrow> (Some e, s3)
             | (Inr (ops, xps), s3) \<Rightarrow>
                 li_try ext p ops xps (in_plasma ext (st_x s3) (st_z s3) p ops xps) s3))"

section \<open>Serialisation: \<^verbatim>\<open>to_dict\<close>, \<^verbatim>\<open>to_eqdsk\<close> and \<^verbatim>\<open>from_eqdsk\<close>\<close>

text \<open>
  Modelled from the spec: the class \<^verbatim>\<open>EQDSKInterface\<close> (\<^verbatim>\<open>bluemira.equilibria.file\<close>)
  is not among the sources. The spec describes the exchange schema as a record of grid
  dimensions and bounds, coordinate arrays, axis and boundary flux, plasma current,
  profile arrays, coil position, size and current vectors and optional limiter points;
  the fields are the keys \<^verbatim>\<open>to_dict\<close> writes (prefixed by \<open>e_\<close>), with the \<^verbatim>\<open>name\<close>
  that \<^verbatim>\<open>to_eqdsk\<close> adds. A file holds the record written to it and reading a file
  returns that record: the file system is a map from paths to records.
\<close>

record EQDSK =
  e_name :: string
  e_nx :: nat
  e_nz :: nat
  e_xdim :: real
  e_zdim :: real
  e_x :: "real list"
  e_z :: "real list"
  e_xcentre :: real
  e_bcentre :: real
  e_xgrid1 :: real
  e_zmid :: real
  e_xmag :: real
  e_zmag :: real
  e_psimag :: real
  e_psibdry :: real
  e_cplasma :: real
  e_psi :: array
  e_fpol :: "real list"
  e_ffprime :: "real list"
  e_pprime :: "real list"
  e_pressure :: "real list"
  e_psinorm :: "real list"
  e_nbdry :: nat
  e_xbdry :: "real list"
  e_zbdry :: "real list"
  e_ncoil :: nat
  e_xc :: "real list"
  e_zc :: "real list"
  e_dxc :: "real list"
  e_dzc :: "real list"
  e_Ic :: "real list"
  e_qpsi :: "real list option"
  e_nlim :: nat
  e_xlim :: "real list"
  e_zlim :: "real list"


text \<open>
  The collaborators of the serialisation: \<^verbatim>\<open>coilset.to_group_vecs()\<close>,
  \<^verbatim>\<open>coilset.n_coils()\<close>, \<^verbatim>\<open>CoilSet.from_group_vecs(e)\<close>, \<^verbatim>\<open>symmetrise_coilset\<close>,
  \<^verbatim>\<open>Grid.from_eqdsk(e)\<close>, \<^verbatim>\<open>CustomProfile.from_eqdsk\<close> (as a function of the record in
  the file it reads), the first component of \<^verbatim>\<open>find_LCFS_separatrix\<close> as the two
  coordinate vectors of the surface, the profile functions and \<^verbatim>\<open>_B_0\<close>, the
  safety-factor profile \<^verbatim>\<open>self.q(psinorm, o_points, x_points)\<close>, \<^verbatim>\<open>len(limiter)\<close>, and
  \<^verbatim>\<open>get_bluemira_path("eqdsk/equilibria", subfolder="data")\<close>, which is \<open>None\<close> when
  it raises \<^verbatim>\<open>ValueError\<close>.
\<close>

record ('cs, 'gr, 'pl, 'pr, 'ct, 'res) io_ext = "('cs, 'gr, 'pl, 'pr, 'ct, 'res) li_ext" +
  to_group_vecs :: "'cs \<Rightarrow> real list \<times> real list \<times> real list \<times> real list \<times> real list"
  n_coils :: "'cs \<Rightarrow> nat"
  CoilSet_from_group_vecs :: "EQDSK \<Rightarrow> 'cs"
  symmetrise_coilset :: "'cs \<Rightarrow> 'cs"
  Grid_from_eqdsk :: "EQDSK \<Rightarrow> Grid"
  CustomProfile_from_eqdsk :: "EQDSK \<Rightarrow> 'pr"
  find_LCFS ::
    "array \<Rightarrow> array \<Rightarrow> array \<Rightarrow> Opoint list option \<Rightarrow> Xpoint list option \<Rightarrow> real
       \<Rightarrow> real list \<times> real list"
  fRBpol :: "'pr \<Rightarrow> real list \<Rightarrow> real list"
  ffprime :: "'pr \<Rightarrow> real list \<Rightarrow> real list"
  pprime :: "'pr \<Rightarrow> real list \<Rightarrow> real list"
  pressure :: "'pr \<Rightarrow> real list \<Rightarrow> real list"
  B_0 :: "'pr \<Rightarrow> real"
  q_profile ::
    "('cs, 'gr, 'pl, 'pr, 'ct) Equilibrium \<Rightarrow> real list \<Rightarrow> Opoint list option
       \<Rightarrow> Xpoint list option \<Rightarrow> real list"
  len_limiter :: "Limiter \<Rightarrow> nat"
  bluemira_path :: "string option"

subsection \<open>Strings and arrays\<close>




definition lower_char :: "char \<Rightarrow> char" where
  "lower_char c =
     (case map_of (zip ''ABCDEFGHIJKLMNOPQRSTUVWXYZ'' ''abcdefghijklmnopqrstuvwxyz'') c of
        Some l \<Rightarrow> l
      | None \<Rightarrow> c)"

definition lower :: "string \<Rightarrow> string" where
  "lower n = map lower_char n"




subsection \<open>\<^verbatim>\<open>Equilibrium.to_dict\<close>\<close>





subsection \<open>\<^verbatim>\<open>to_eqdsk\<close>\<close>



subsection \<open>\<^verbatim>\<open>_get_eqdsk\<close> and \<^verbatim>\<open>from_eqdsk\<close>\<close>




section \<open>The charged-particle solver: parameter check\<close>

text \<open>
  The parameters of \<^verbatim>\<open>ChargedParticleSolver\<close>, with the defaults of
  \<^verbatim>\<open>default_params\<close>. The class \<^verbatim>\<open>ParameterFrame\<close> is not among the sources; its
  method \<^verbatim>\<open>update_kw_parameters(config)\<close> is a parameter of the constructor.
\<close>

record params =
  fw_p_sol_near :: real
  fw_p_sol_far :: real
  fw_lambda_q_near :: real
  fw_lambda_q_far :: real
  fw_lambda_q_near_ib :: real
  fw_lambda_q_far_ib :: real
  f_outer_target :: real
  f_inner_target :: real
  f_upper_target :: real
  f_lower_target :: real

definition default_params :: params where
  "default_params =
     \<lparr> fw_p_sol_near = 50, fw_p_sol_far = 50,
       fw_lambda_q_near = 0.003, fw_lambda_q_far = 0.05,
       fw_lambda_q_near_ib = 0.003, fw_lambda_q_far_ib = 0.05,
       f_outer_target = 0.75, f_inner_target = 0.25,
       f_upper_target = 0.5, f_lower_target = 0.5 \<rparr>"

text \<open>\<^verbatim>\<open>_check_params\<close>: the two tests in the order of the source.\<close>

definition check_params :: "params \<Rightarrow> error + unit" where
  "check_params p =
     (if f_outer_target p + f_inner_target p \<noteq> 1 then
        Inl (AdvectionTransportError ''Inner / outer fractions should sum to 1.0'')
      else if f_upper_target p + f_lower_target p \<noteq> 1 then
        Inl (AdvectionTransportError ''Upper / lower fractions should sum to 1.0'')
      else Inr ())"

text \<open>
  The solver object: the parameters, the midplane resolution \<^verbatim>\<open>dx_mp\<close>, the equilibrium
  and its first O-point. The attributes the constructor sets to \<^verbatim>\<open>None\<close> and the plane
  through the O-point are left out.
\<close>

record 'e ChargedParticleSolver =
  cps_params :: params
  dx_mp :: real
  cps_eq :: 'e
  o_point :: Opoint

text \<open>
  \<^verbatim>\<open>ChargedParticleSolver.__init__(config, equilibrium, **kwargs)\<close>: the parameters are
  updated and checked first; the rest of the constructor runs only after the check.
  \<open>eq_OX_points\<close> is \<^verbatim>\<open>equilibrium.get_OX_points()\<close>; indexing an empty list of O-points
  raises.
\<close>

definition ChargedParticleSolver_init ::
  "(params \<Rightarrow> 'cfg \<Rightarrow> params) \<Rightarrow> ('e \<Rightarrow> Opoint list \<times> Xpoint list) \<Rightarrow> 'cfg \<Rightarrow> 'e
     \<Rightarrow> real option \<Rightarrow> error + 'e ChargedParticleSolver" where
  "ChargedParticleSolver_init update_kw_parameters eq_OX_points config equilibrium kw_dx_mp =
     (let p = update_kw_parameters default_params config in
      case check_params p of
        Inl e \<Rightarrow> Inl e
      | Inr u \<Rightarrow>
          (case fst (eq_OX_points equilibrium) of
             [] \<Rightarrow> Inl IndexError
           | o1 # os \<Rightarrow>
               Inr \<lparr> cps_params = p,
                     dx_mp = (case kw_dx_mp of None \<Rightarrow> 0.001 | Some d \<Rightarrow> d),
                     cps_eq = equilibrium, o_point = o1 \<rparr>))"

section \<open>Concrete inputs\<close>

text \<open>
  A grid with \<open>x\<close> from 2 to 4, and a grid of one node at \<open>(1, 0)\<close>.
\<close>

definition grid_2_4 :: Grid where
  "grid_2_4 = \<lparr> x_min = 2, x_max = 4, z_min = -1, z_max = 1, nx = 2, nz = 2,
                 x_size = 2, z_size = 2, z_mid = 0, x_1d = [2, 4], z_1d = [-1, 1],
                 g_x = [[2, 2], [4, 4]], g_z = [[-1, 1], [-1, 1]], g_dx = 2, g_dz = 2 \<rparr>"

definition grid_1 :: Grid where
  "grid_1 = \<lparr> x_min = 1, x_max = 1, z_min = -1, z_max = 1, nx = 1, nz = 1,
               x_size = 0, z_size = 2, z_mid = 0, x_1d = [1], z_1d = [0],
               g_x = [[1]], g_z = [[0]], g_dx = 0, g_dz = 0 \<rparr>"

text \<open>
  One set of collaborators for every concrete input. The coil set is its current \<open>I\<close>,
  with flux \<open>I * x\<close>; the plasma field model is its flux map, read at the first node; the
  profile is an amplitude \<open>a\<close>, with current density \<open>a * psi\<close>; the solver negates the
  right-hand side; the finder reports the first node as an O-point where the flux is
  positive and as an X-point otherwise; the feedback controller adds its gain to its
  correction at every stabilisation.
\<close>

definition node :: "array \<Rightarrow> real" where
  "node a = (case a of (v # _) # _ \<Rightarrow> v | _ \<Rightarrow> 0)"

datatype toy_controller = Dummy | Virtual real real

definition toy :: "(real, array, array, real, toy_controller) eq_ext" where
  "toy =
     \<lparr> psi_response = (\<lambda>I xa za. xa),
       Bx_response = (\<lambda>I xa za. arr_map (\<lambda>v. 0) xa),
       Bz_response = (\<lambda>I xa za. arr_map (\<lambda>v. 1) xa),
       cs_psi = (\<lambda>I x z. case x of None \<Rightarrow> 0 | Some v \<Rightarrow> I * v),
       cs_psi_arr = (\<lambda>I xa za. arr_map (\<lambda>v. I * v) xa),
       cs_psi_greens = (\<lambda>I g. arr_map (\<lambda>v. I * v) g),
       NoPlasmaCoil = (\<lambda>g. arr_map (\<lambda>v. 0) (g_x g)),
       apply_boundary = (\<lambda>a v. a),
       find_OX_points = (\<lambda>xa za p lm.
          if 0 < node p then ([Opoint (node xa) (node za) (node p)], [])
          else ([], [Xpoint (node xa) (node za) (node p)])),
       profiles_jtor = (\<lambda>a xa za p ops xps. arr_map (\<lambda>v. a * v) p),
       PlasmaCoil = (\<lambda>p j g. p),
       plasma_psi = (\<lambda>p. p),
       plasma_psi_at = (\<lambda>p x z. node p),
       call_boundary = (\<lambda>b p j. p),
       call_solver = (\<lambda>sv rhs. arr_map uminus rhs),
       MU_0 = 1,
       DummyController = (\<lambda>a. Dummy),
       VirtualController = (\<lambda>s gz. Virtual gz 0),
       stabilise = (\<lambda>c s. case c of Dummy \<Rightarrow> Dummy | Virtual gz cur \<Rightarrow> Virtual gz (cur + gz)),
       controller_psi = (\<lambda>c. case c of Dummy \<Rightarrow> [[0]] | Virtual gz cur \<Rightarrow> [[cur]]),
       is_BetaLiIpProfile = (\<lambda>a. False),
       l_i_target = (\<lambda>a. 0) \<rparr>"

text \<open>
  The breakdown state of a coil set of current 1 on \<open>grid_2_4\<close>, with the breakdown point
  at \<open>(3, 0)\<close>.
\<close>

definition breakdown_at_3 :: "(real, array, array) Breakdown" where
  "breakdown_at_3 =
     \<lparr> st_x = [[2, 2], [4, 4]], st_z = [[-1, 1], [-1, 1]], st_dx = 2, st_dz = 2,
       grid = grid_2_4, limiter = None,
       psi_green = [[2, 2], [4, 4]], bx_green = [[0, 0], [0, 0]], bz_green = [[1, 1], [1, 1]],
       coilset = 1, bd_plasma = [[0, 0], [0, 0]], breakdown_point = (3, 0),
       bd_filename = None \<rparr>"

text \<open>
  The equilibrium on \<open>grid_1\<close> with coil current 1, profile amplitude 1, plasma flux \<open>p\<close>,
  cached current density \<open>jt\<close> and controller \<open>c\<close>.
\<close>

definition toy_eq ::
  "real \<Rightarrow> array option \<Rightarrow> toy_controller
     \<Rightarrow> (real, array, array, real, toy_controller) Equilibrium" where
  "toy_eq p jt c =
     \<lparr> st_x = [[1]], st_z = [[0]], st_dx = 0, st_dz = 0, grid = grid_1, limiter = None,
       psi_green = [[1]], bx_green = [[0]], bz_green = [[1]], coilset = 1,
       jtor = jt, profiles = 1, o_points = None, x_points = None,
       solver = GSSolver grid_1 False, li_flag = False, li = 0, li_iter = 0, li_temp = None,
       plasma = [[p]], force_symmetry = False, controller = Some c,
       boundary = FreeBoundary grid_1, filename = None, kwargs_vcontrol = None \<rparr>"

text \<open>
  A second set of collaborators, for \<^verbatim>\<open>solve_li\<close> and the serialisation. The coil set
  is a list of coils with position, half-sizes and current, with flux \<open>I * x\<close> for the
  total current \<open>I\<close>; its group vectors are the five columns of the list, and the loader
  rebuilds the list from them. The grid loader rebuilds the grid from the descriptors of
  the record. The profile is an inductance-matching one with the single coefficient \<open>a\<close>;
  the inductance computed is the flux at the first node, the tolerance is 0.1. The
  optimiser evaluates the starting point and the point one above it and returns the
  better of the two. The remaining collaborators are those of \<open>toy\<close>.
\<close>

datatype toy_coil = Coil (c_x: real) (c_z: real) (c_dx: real) (c_dz: real) (c_current: real)

definition toy_grid_from :: "EQDSK \<Rightarrow> Grid" where
  "toy_grid_from e =
     \<lparr> x_min = e_xgrid1 e, x_max = e_xgrid1 e + e_xdim e,
       z_min = e_zmid e - e_zdim e / 2, z_max = e_zmid e + e_zdim e / 2,
       nx = e_nx e, nz = e_nz e,
       x_size = e_xdim e, z_size = e_zdim e, z_mid = e_zmid e,
       x_1d = e_x e, z_1d = e_z e,
       g_x = map (\<lambda>x. map (\<lambda>z. x) (e_z e)) (e_x e),
       g_z = map (\<lambda>x. e_z e) (e_x e),
       g_dx = (if e_nx e \<le> 1 then 0 else e_xdim e / real (e_nx e - 1)),
       g_dz = (if e_nz e \<le> 1 then 0 else e_zdim e / real (e_nz e - 1)) \<rparr>"

definition toy_io ::
  "(toy_coil list, array, array, real, toy_controller, real list) io_ext" where
  "toy_io =
     \<lparr> psi_response = (\<lambda>cs xa za. xa),
       Bx_response = (\<lambda>cs xa za. arr_map (\<lambda>v. 0) xa),
       Bz_response = (\<lambda>cs xa za. arr_map (\<lambda>v. 1) xa),
       cs_psi = (\<lambda>cs x z. case x of None \<Rightarrow> 0 | Some v \<Rightarrow> sum_list (map c_current cs) * v),
       cs_psi_arr = (\<lambda>cs xa za. arr_map (\<lambda>v. sum_list (map c_current cs) * v) xa),
       cs_psi_greens = (\<lambda>cs g. arr_map (\<lambda>v. sum_list (map c_current cs) * v) g),
       NoPlasmaCoil = (\<lambda>g. arr_map (\<lambda>v. 0) (g_x g)),
       apply_boundary = (\<lambda>a v. a),
       find_OX_points = (\<lambda>xa za p lm.
          if 0 < node p then ([Opoint (node xa) (node za) (node p)], [])
          else ([], [Xpoint (node xa) (node za) (node p)])),
       profiles_jtor = (\<lambda>a xa za p ops xps. arr_map (\<lambda>v. a * v) p),
       PlasmaCoil = (\<lambda>p j g. p),
       plasma_psi = (\<lambda>p. p),
       plasma_psi_at = (\<lambda>p x z. node p),
       call_boundary = (\<lambda>b p j. p),
       call_solver = (\<lambda>sv rhs. arr_map uminus rhs),
       MU_0 = 1,
       DummyController = (\<lambda>a. Dummy),
       VirtualController = (\<lambda>s gz. Virtual gz 0),
       stabilise = (\<lambda>c s. case c of Dummy \<Rightarrow> Dummy | Virtual gz cur \<Rightarrow> Virtual gz (cur + gz)),
       controller_psi = (\<lambda>c. case c of Dummy \<Rightarrow> [[0]] | Virtual gz cur \<Rightarrow> [[cur]]),
       is_BetaLiIpProfile = (\<lambda>a. True),
       l_i_target = (\<lambda>a. 4),
       plasma_Bx = (\<lambda>p. arr_map (\<lambda>v. 0) p),
       plasma_Bz = (\<lambda>p. arr_map (\<lambda>v. 0) p),
       cs_Bx_greens = (\<lambda>cs g. g),
       cs_Bz_greens = (\<lambda>cs g. g),
       in_plasma = (\<lambda>xa za p ops xps. map (map (\<lambda>v. 0 < v)) p),
       calc_li3minargs = (\<lambda>xa za p bp r0 ip dx dz m. node p),
       adjust_parameters = (\<lambda>a x. case x of [] \<Rightarrow> a | v # vs \<Rightarrow> v),
       shape_coeffs = (\<lambda>a. [a]),
       R_0 = (\<lambda>a. 1),
       I_p = (\<lambda>a. a),
       l_i_rel_tol = (\<lambda>a. 0.1),
       abs_rel_difference = (\<lambda>v r. \<bar>(v - r) / r\<bar>),
       minimize = (\<lambda>x0 bounds.
          Evaluate x0 (\<lambda>v.
            Evaluate (map (\<lambda>c. c + 1) x0) (\<lambda>w.
              Finish (if w < v then map (\<lambda>c. c + 1) x0 else x0)))),
       process_scipy_result = (\<lambda>r. Inr r),
       to_group_vecs = (\<lambda>cs. (map c_x cs, map c_z cs, map c_dx cs, map c_dz cs,
                               map c_current cs)),
       n_coils = length,
       CoilSet_from_group_vecs = (\<lambda>e.
          map (\<lambda>(x, z, dx, dz, i). Coil x z dx dz i)
              (zip (e_xc e) (zip (e_zc e) (zip (e_dxc e) (zip (e_dzc e) (e_Ic e)))))),
       symmetrise_coilset = (\<lambda>cs. cs),
       Grid_from_eqdsk = toy_grid_from,
       CustomProfile_from_eqdsk = (\<lambda>e. e_cplasma e),
       find_LCFS = (\<lambda>xa za p ops xps tol. ([node xa], [node za])),
       fRBpol = (\<lambda>a ps. map (\<lambda>v. a) ps),
       ffprime = (\<lambda>a ps. map (\<lambda>v. a) ps),
       pprime = (\<lambda>a ps. map (\<lambda>v. a) ps),
       pressure = (\<lambda>a ps. map (\<lambda>v. a) ps),
       B_0 = (\<lambda>a. 1),
       q_profile = (\<lambda>s ps ops xps. map (\<lambda>v. 1) ps),
       len_limiter = (\<lambda>l. length (lim_x l)),
       bluemira_path = None \<rparr>"

text \<open>
  The equilibrium on \<open>grid_1\<close> with one coil of current 1, plasma flux 2, no feedback and
  the target inductance \<open>target\<close>.
\<close>

definition toy_li_eq ::
  "real \<Rightarrow> (toy_coil list, array, array, real, toy_controller) Equilibrium" where
  "toy_li_eq target =
     \<lparr> st_x = [[1]], st_z = [[0]], st_dx = 0, st_dz = 0, grid = grid_1, limiter = None,
       psi_green = [[1]], bx_green = [[0]], bz_green = [[1]],
       coilset = [Coil 3 0 1 1 1],
       jtor = None, profiles = 1, o_points = None, x_points = None,
       solver = GSSolver grid_1 False, li_flag = True, li = target, li_iter = 0,
       li_temp = None,
       plasma = [[2]], force_symmetry = False, controller = Some Dummy,
       boundary = FreeBoundary grid_1, filename = None, kwargs_vcontrol = None \<rparr>"


text \<open>
  A stand-in for \<^verbatim>\<open>ParameterFrame.update_kw_parameters\<close> on a configuration given as
  a list of names and values: a fraction named in the configuration takes the value given
  there.
\<close>

definition update_fractions :: "params \<Rightarrow> (string \<times> real) list \<Rightarrow> params" where
  "update_fractions p config =
     p\<lparr> f_outer_target := (case map_of config ''f_outer_target'' of
                             None \<Rightarrow> f_outer_target p | Some v \<Rightarrow> v),
        f_inner_target := (case map_of config ''f_inner_target'' of
                             None \<Rightarrow> f_inner_target p | Some v \<Rightarrow> v),
        f_upper_target := (case map_of config ''f_upper_target'' of
                             None \<Rightarrow> f_upper_target p | Some v \<Rightarrow> v),
        f_lower_target := (case map_of config ''f_lower_target'' of
                             None \<Rightarrow> f_lower_target p | Some v \<Rightarrow> v) \<rparr>"

section \<open>The claim's reading of \<^verbatim>\<open>breakdown_psi\<close>\<close>

text \<open>
  The claim's wording, for comparison with the code: the minimum of the flux over the
  boundary of a breakdown region centred at the breakdown point. The region is a disc of
  radius \<open>r\<close>, and its boundary is sampled at its four axis points. The class has no
  attribute for a region or its radius.
\<close>

definition region_boundary :: "real \<times> real \<Rightarrow> real \<Rightarrow> (real \<times> real) list" where
  "region_boundary c r =
     [(fst c - r, snd c), (fst c + r, snd c), (fst c, snd c - r), (fst c, snd c + r)]"

definition boundary_minimum_flux ::
  "('cs, 'gr, 'pl, 'x) coil_ext_scheme \<Rightarrow> ('cs, 'gr, 'pl) Breakdown \<Rightarrow> real \<Rightarrow> flux" where
  "boundary_minimum_flux ext b r =
     AtPoint (min_list (map (\<lambda>p. cs_psi ext (coilset b) (Some (fst p)) (Some (snd p)))
                            (region_boundary (breakdown_point b) r)))"

section \<open>Auxiliary notions of the statements\<close>

text \<open>Node \<open>(i, j)\<close> lies within an array.\<close>

definition in_shape :: "array \<Rightarrow> nat \<Rightarrow> nat \<Rightarrow> bool" where
  "in_shape a i j = (i < length a \<and> j < length (a ! i))"

text \<open>
  The critical-point cache of a state is consistent with the state's flux map: it holds
  what a search on \<^verbatim>\<open>self.psi()\<close> finds.
\<close>

definition ox_cache_current ::
  "('cs, 'gr, 'pl, 'pr, 'ct, 'x) eq_ext_scheme \<Rightarrow> ('cs, 'gr, 'pl, 'pr, 'ct) Equilibrium \<Rightarrow> bool" where
  "ox_cache_current ext s =
     (case psi_full ext s of
        (Inl e, s') \<Rightarrow> False
      | (Inr p, s') \<Rightarrow>
          o_points s = Some (fst (find_OX_points ext (st_x s) (st_z s) p (limiter s)))
          \<and> x_points s = Some (snd (find_OX_points ext (st_x s) (st_z s) p (limiter s))))"

text \<open>
  The inductance last computed is within the relative tolerance of the target.
\<close>

definition within_tolerance ::
  "('cs, 'gr, 'pl, 'pr, 'ct, 'res, 'x) li_ext_scheme \<Rightarrow> ('cs, 'gr, 'pl, 'pr, 'ct) Equilibrium
     \<Rightarrow> bool" where
  "within_tolerance ext s =
     (case li_temp s of
        None \<Rightarrow> False
      | Some v \<Rightarrow> abs_rel_difference ext v (li s) \<le> l_i_rel_tol ext (profiles s))"

text \<open>
  Two states have the same coil set, grid, limiter, profiles and mesh: what
  \<^verbatim>\<open>to_dict\<close> reads besides the flux.
\<close>

definition same_setup ::
  "('cs, 'gr, 'pl, 'pr, 'ct) Equilibrium \<Rightarrow> ('cs, 'gr, 'pl, 'pr, 'ct) Equilibrium \<Rightarrow> bool" where
  "same_setup s s' =
     (coilset s' = coilset s \<and> grid s' = grid s \<and> limiter s' = limiter s
      \<and> profiles s' = profiles s \<and> st_x s' = st_x s \<and> st_z s' = st_z s)"

section \<open>The breakdown state: theorems\<close>

lemma Breakdown_init_default_point:
  assumes "z_max g \<noteq> z_min g"
  shows "map_sum id breakdown_point (Breakdown_init ext cs g psi fname lm None)
           = Inr (x_min g + 0.5 * (x_max g + x_min g), 0)"
  using assms
  by (simp add: Breakdown_init_def set_init_plasma_def remap_greens_def Let_def)

lemma breakdown_at_3_constructed:
  "Breakdown_init toy 1 grid_2_4 (Some [[0, 0], [0, 0]]) None None (Some (3, 0))
     = Inr breakdown_at_3"
  by (simp add: Breakdown_init_def set_init_plasma_def remap_greens_def Let_def
      grid_2_4_def breakdown_at_3_def toy_def arr_map_def)

text \<open>
  C10. The claim: a Breakdown constructed without a \<^verbatim>\<open>breakdown_point\<close> argument has its
  breakdown point at the centre of the grid's radial extent on the midplane,
  \<open>((x_min + x_max) / 2, 0)\<close>. The code computes
  \<^verbatim>\<open>x_mid = grid.x_min + 0.5 * (grid.x_max + grid.x_min)\<close> under the comment
  ``Set default breakdown point to grid centre''. On the grid from 2 to 4 that is 5, to
  the right of the grid, and not the centre 3.
\<close>

theorem default_breakdown_point_on_grid_2_4:
  "map_sum id breakdown_point (Breakdown_init ext cs grid_2_4 psi fname lm None) = Inr (5, 0)
   \<and> (x_min grid_2_4 + x_max grid_2_4) / 2 = 3
   \<and> x_max grid_2_4 < 5"
proof -
  have "z_max grid_2_4 \<noteq> z_min grid_2_4"
    by (simp add: grid_2_4_def)
  from Breakdown_init_default_point [OF this]
  show ?thesis
    by (simp add: grid_2_4_def)
qed

text \<open>
  What the body of the property computes, \<^verbatim>\<open>self.psi(*self.breakdown_point)\<close>: the flux
  of the coil set at the breakdown point.
\<close>

lemma breakdown_psi_unfold:
  "breakdown_psi ext b
     = AtPoint (cs_psi ext (coilset b) (Some (fst (breakdown_point b)))
                                       (Some (snd (breakdown_point b))))"
  by (simp add: breakdown_psi_def Breakdown_psi_def)

text \<open>
  C1. The claim: \<^verbatim>\<open>breakdown_psi\<close> is the minimum of the flux map over the boundary of
  the breakdown region centred at the breakdown point. The docstring of the property
  promises the same (``Returns: The minimum poloidal magnetic flux at the edge of the
  breakdown region''). The body returns the flux at the breakdown point and takes no
  minimum over any boundary. With flux \<open>x\<close> and the breakdown point at \<open>(3, 0)\<close> the
  property is 3, while the minimum over the circle of radius 1 around the point is 2.
\<close>

theorem breakdown_psi_is_not_boundary_minimum:
  "breakdown_psi toy breakdown_at_3 = AtPoint 3
   \<and> boundary_minimum_flux toy breakdown_at_3 1 = AtPoint 2
   \<and> breakdown_psi toy breakdown_at_3 \<noteq> boundary_minimum_flux toy breakdown_at_3 1"
  by (simp add: breakdown_psi_def Breakdown_psi_def boundary_minimum_flux_def
      region_boundary_def breakdown_at_3_def toy_def)

section \<open>The equilibrium state: theorems\<close>

lemma arr_add_nth:
  assumes "in_shape a i j" and "in_shape b i j"
  shows "arr_add a b ! i ! j = a ! i ! j + b ! i ! j"
  using assms by (simp add: arr_add_def arr_map2_def in_shape_def)

lemma arr_add_in_shape:
  assumes "in_shape a i j" and "in_shape b i j"
  shows "in_shape (arr_add a b) i j"
  using assms by (simp add: arr_add_def arr_map2_def in_shape_def)

lemma starting_flux_Some: "starting_flux ext s (Some q) = (Inr q, s)"
  by (simp add: starting_flux_def)

lemma starting_flux_None:
  assumes "controller s = Some c"
  shows "starting_flux ext s None
     = (Inr (arr_add (arr_add (plasma_psi ext (plasma s))
                              (cs_psi_greens ext (coilset s) (psi_green s)))
                     (controller_psi ext (stabilised_controller ext s c))),
        s\<lparr>controller := Some (stabilised_controller ext s c)\<rparr>)"
  using assms by (simp add: starting_flux_def psi_full_def Let_def)

lemma starting_flux_no_controller:
  assumes "controller s = None"
  shows "starting_flux ext s None = (Inl AttributeError, s)"
  using assms by (simp add: starting_flux_def psi_full_def)

lemma starting_flux_cases:
  assumes "starting_flux ext s psi_arg = (Inr p, s1)" and "controller s = Some c"
  shows "s1 = s\<lparr>controller := Some (if psi_arg = None then stabilised_controller ext s c else c)\<rparr>"
proof (cases psi_arg)
  case (Some q)
  with assms(1) have "s1 = s" by (simp add: starting_flux_Some)
  with Some assms(2) show ?thesis by simp
next
  case None
  with assms have "s1 = s\<lparr>controller := Some (stabilised_controller ext s c)\<rparr>"
    by (simp add: starting_flux_None)
  with None show ?thesis by simp
qed

lemma solve_no_jtor:
  assumes "starting_flux ext (clear_OX_points s) psi_arg = (Inr p, s1)"
    and "controller s = Some c"
    and "find_OX_points ext (st_x s) (st_z s) p (limiter s) = (ops, xps)"
  shows "solve ext s None psi_arg =
     (if ops = [] then
        (Some (EquilibriaError ''No O-point found in equilibrium.''),
         s1\<lparr>o_points := Some ops, x_points := Some xps\<rparr>)
      else
        (None, (gs_step ext (s1\<lparr>o_points := Some ops, x_points := Some xps\<rparr>)
                  (profiles_jtor ext (profiles s) (st_x s) (st_z s) p (Some ops) (Some xps)))
               \<lparr>jtor := Some (profiles_jtor ext (profiles s) (st_x s) (st_z s) p (Some ops) (Some xps))\<rparr>))"
proof -
  have "controller (clear_OX_points s) = Some c"
    using assms(2) by (simp add: clear_OX_points_def)
  note s1 = starting_flux_cases [OF assms(1) this]
  have f: "st_x s1 = st_x s" "st_z s1 = st_z s" "limiter s1 = limiter s" "profiles s1 = profiles s"
    by (simp_all add: s1 clear_OX_points_def)
  show ?thesis
    using assms(1,3)
    by (simp add: solve_def get_OX_points_def starting_flux_def falsy_def Let_def f)
qed

text \<open>
  C2, amended: when \<^verbatim>\<open>solve()\<close> is called with no current-density argument on an
  equilibrium with a controller, and the critical-point search on the starting flux map
  (the \<^verbatim>\<open>psi\<close> argument, or \<^verbatim>\<open>self.psi()\<close>) yields no O-point, the call raises
  \<^verbatim>\<open>EquilibriaError\<close>; the plasma field model, its flux and the cached current density
  are unchanged. The critical-point cache is not left cleared: it holds the result of the
  failed search, an empty list of O-points and the X-points found. The controller has
  been stabilised when the flux map was queried and a current density was cached. Every
  other attribute is unchanged.
\<close>

theorem solve_without_O_point:
  assumes "controller s = Some c"
    and "starting_flux ext (clear_OX_points s) psi_arg = (Inr p, s1)"
    and "fst (find_OX_points ext (st_x s) (st_z s) p (limiter s)) = []"
  shows "solve ext s None psi_arg =
           (Some (EquilibriaError ''No O-point found in equilibrium.''),
            s\<lparr>controller :=
                 Some (if psi_arg = None then stabilised_controller ext (clear_OX_points s) c
                       else c),
               o_points := Some [],
               x_points := Some (snd (find_OX_points ext (st_x s) (st_z s) p (limiter s)))\<rparr>)
       \<and> plasma (snd (solve ext s None psi_arg)) = plasma s
       \<and> jtor (snd (solve ext s None psi_arg)) = jtor s
       \<and> plasma_psi ext (plasma (snd (solve ext s None psi_arg))) = plasma_psi ext (plasma s)
       \<and> o_points (snd (solve ext s None psi_arg)) \<noteq> None"
proof -
  obtain xps where ox: "find_OX_points ext (st_x s) (st_z s) p (limiter s) = ([], xps)"
    using assms(3) by (cases "find_OX_points ext (st_x s) (st_z s) p (limiter s)") simp
  have "controller (clear_OX_points s) = Some c"
    using assms(1) by (simp add: clear_OX_points_def)
  note s1 = starting_flux_cases [OF assms(2) this]
  have res: "solve ext s None psi_arg =
      (Some (EquilibriaError ''No O-point found in equilibrium.''),
       s1\<lparr>o_points := Some [], x_points := Some xps\<rparr>)"
    using solve_no_jtor [OF assms(2) assms(1) ox] by simp
  have st: "s1\<lparr>o_points := Some [], x_points := Some xps\<rparr>
      = s\<lparr>controller :=
             Some (if psi_arg = None then stabilised_controller ext (clear_OX_points s) c
                   else c),
           o_points := Some [], x_points := Some xps\<rparr>"
    by (subst s1) (simp add: clear_OX_points_def)
  show ?thesis
    by (simp add: res st ox)
qed

lemma toy_failed_solve:
  "solve toy (toy_eq (-4) (Some [[1]]) (Virtual 2 0)) None None =
     (Some (EquilibriaError ''No O-point found in equilibrium.''),
      (toy_eq (-4) (Some [[1]]) (Virtual 2 2))
        \<lparr>o_points := Some [], x_points := Some [Xpoint 1 0 (-1)]\<rparr>)"
  by (simp add: solve_def clear_OX_points_def starting_flux_def psi_full_def
      stabilised_controller_def get_OX_points_def falsy_def
      toy_def toy_eq_def Let_def arr_add_def arr_map2_def arr_map_def node_def)

lemma toy_starting_flux:
  "starting_flux toy (clear_OX_points (toy_eq (-4) (Some [[1]]) (Virtual 2 0))) None
     = (Inr [[-1]], toy_eq (-4) (Some [[1]]) (Virtual 2 2))"
  by (simp add: clear_OX_points_def starting_flux_def psi_full_def stabilised_controller_def
      toy_def toy_eq_def Let_def arr_add_def arr_map2_def arr_map_def)

text \<open>Witness for C2: plasma flux \<open>-4\<close>, coil flux 1, a feedback controller of gain 2.\<close>

theorem solve_without_O_point_witness:
  "controller (toy_eq (-4) (Some [[1]]) (Virtual 2 0)) = Some (Virtual 2 0)
   \<and> starting_flux toy (clear_OX_points (toy_eq (-4) (Some [[1]]) (Virtual 2 0))) None
       = (Inr [[-1]], toy_eq (-4) (Some [[1]]) (Virtual 2 2))
   \<and> fst (find_OX_points toy [[1]] [[0]] [[-1]] None) = []
   \<and> fst (solve toy (toy_eq (-4) (Some [[1]]) (Virtual 2 0)) None None)
       = Some (EquilibriaError ''No O-point found in equilibrium.'')
   \<and> plasma (snd (solve toy (toy_eq (-4) (Some [[1]]) (Virtual 2 0)) None None)) = [[-4]]
   \<and> jtor (snd (solve toy (toy_eq (-4) (Some [[1]]) (Virtual 2 0)) None None)) = Some [[1]]
   \<and> o_points (snd (solve toy (toy_eq (-4) (Some [[1]]) (Virtual 2 0)) None None)) \<noteq> None"
proof -
  have c: "controller (toy_eq (-4) (Some [[1]]) (Virtual 2 0)) = Some (Virtual 2 0)"
    by (simp add: toy_eq_def)
  have f: "fst (find_OX_points toy (st_x (toy_eq (-4) (Some [[1]]) (Virtual 2 0)))
                  (st_z (toy_eq (-4) (Some [[1]]) (Virtual 2 0))) [[-1]]
                  (limiter (toy_eq (-4) (Some [[1]]) (Virtual 2 0)))) = []"
    by (simp add: toy_def toy_eq_def node_def)
  have g: "fst (find_OX_points toy [[1]] [[0]] [[-1]] None) = []"
    by (simp add: toy_def node_def)
  have p: "plasma (toy_eq (-4) (Some [[1]]) (Virtual 2 0)) = [[-4]]"
    "jtor (toy_eq (-4) (Some [[1]]) (Virtual 2 0)) = Some [[1]]"
    by (simp_all add: toy_eq_def)
  from solve_without_O_point [OF c toy_starting_flux f]
  show ?thesis
    using c g p toy_starting_flux by simp
qed

text \<open>
  C2, the claim as stated, refuted: after the failed solve the state is not the state
  before the call with only its critical-point cache cleared. The cache holds
  \<open>([], [Xpoint 1 0 (-1)])\<close>, the result of the search that found no O-point, and the
  controller's correction has gone from 0 to 2.
\<close>

theorem failed_solve_leaves_more_than_a_cleared_cache:
  "fst (find_OX_points toy [[1]] [[0]] [[-1]] None) = []
   \<and> fst (solve toy (toy_eq (-4) (Some [[1]]) (Virtual 2 0)) None None)
       = Some (EquilibriaError ''No O-point found in equilibrium.'')
   \<and> o_points (snd (solve toy (toy_eq (-4) (Some [[1]]) (Virtual 2 0)) None None)) = Some []
   \<and> x_points (snd (solve toy (toy_eq (-4) (Some [[1]]) (Virtual 2 0)) None None))
       = Some [Xpoint 1 0 (-1)]
   \<and> controller (snd (solve toy (toy_eq (-4) (Some [[1]]) (Virtual 2 0)) None None))
       = Some (Virtual 2 2)
   \<and> snd (solve toy (toy_eq (-4) (Some [[1]]) (Virtual 2 0)) None None)
       \<noteq> clear_OX_points (toy_eq (-4) (Some [[1]]) (Virtual 2 0))"
proof -
  have g: "fst (find_OX_points toy [[1]] [[0]] [[-1]] None) = []"
    by (simp add: toy_def node_def)
  have "o_points (snd (solve toy (toy_eq (-4) (Some [[1]]) (Virtual 2 0)) None None))
          \<noteq> o_points (clear_OX_points (toy_eq (-4) (Some [[1]]) (Virtual 2 0)))"
    by (simp add: toy_failed_solve clear_OX_points_def)
  then have ne: "snd (solve toy (toy_eq (-4) (Some [[1]]) (Virtual 2 0)) None None)
       \<noteq> clear_OX_points (toy_eq (-4) (Some [[1]]) (Virtual 2 0))"
    by (rule contrapos_nn) simp
  have c: "controller ((toy_eq (-4) (Some [[1]]) (Virtual 2 2))) = Some (Virtual 2 2)"
    by (simp add: toy_eq_def)
  show ?thesis
    using g ne c by (simp add: toy_failed_solve)
qed

lemma solved_plasma_psi_cong:
  "solved_plasma_psi ext (s\<lparr>controller := c, o_points := a, x_points := b\<rparr>) jt
     = solved_plasma_psi ext s jt"
  by (simp add: solved_plasma_psi_def)

lemma solve_with_jtor:
  "solve ext s (Some jt) psi_arg
     = (None, s\<lparr>o_points := None, x_points := None, jtor := Some jt,
                 plasma := PlasmaCoil ext (solved_plasma_psi ext s jt) (Some jt) (grid s)\<rparr>)"
  by (simp add: solve_def clear_OX_points_def gs_step_def update_plasma_def
      solved_plasma_psi_def Let_def)

text \<open>
  C3, amended: on a successful \<^verbatim>\<open>solve()\<close> the plasma field model is rebuilt from the
  newly solved plasma flux and the current density used, and the cached current density
  is that map. The critical-point cache is not recomputed from the new flux: without a
  \<^verbatim>\<open>jtor\<close> argument it holds the points found on the flux map the solve started from,
  and with a \<^verbatim>\<open>jtor\<close> argument it is left cleared.
\<close>

theorem solve_refreshes_plasma_and_current_density:
  assumes "controller s = Some c"
    and "starting_flux ext (clear_OX_points s) psi_arg = (Inr p, s1)"
    and "find_OX_points ext (st_x s) (st_z s) p (limiter s) = (ops, xps)"
    and "ops \<noteq> []"
    and "jt = profiles_jtor ext (profiles s) (st_x s) (st_z s) p (Some ops) (Some xps)"
  shows "fst (solve ext s None psi_arg) = None
       \<and> plasma (snd (solve ext s None psi_arg))
           = PlasmaCoil ext (solved_plasma_psi ext s jt) (Some jt) (grid s)
       \<and> jtor (snd (solve ext s None psi_arg)) = Some jt
       \<and> o_points (snd (solve ext s None psi_arg)) = Some ops
       \<and> x_points (snd (solve ext s None psi_arg)) = Some xps
       \<and> fst (solve ext s (Some j) psi_arg) = None
       \<and> plasma (snd (solve ext s (Some j) psi_arg))
           = PlasmaCoil ext (solved_plasma_psi ext s j) (Some j) (grid s)
       \<and> jtor (snd (solve ext s (Some j) psi_arg)) = Some j
       \<and> o_points (snd (solve ext s (Some j) psi_arg)) = None
       \<and> x_points (snd (solve ext s (Some j) psi_arg)) = None"
proof -
  have "controller (clear_OX_points s) = Some c"
    using assms(1) by (simp add: clear_OX_points_def)
  note s1 = starting_flux_cases [OF assms(2) this]
  have sp: "solved_plasma_psi ext (s1\<lparr>o_points := Some ops, x_points := Some xps\<rparr>) jt
      = solved_plasma_psi ext s jt"
    by (subst s1) (simp add: solved_plasma_psi_def clear_OX_points_def)
  have g: "grid s1 = grid s"
    by (subst s1) (simp add: clear_OX_points_def)
  have res: "solve ext s None psi_arg =
      (None, (gs_step ext (s1\<lparr>o_points := Some ops, x_points := Some xps\<rparr>) jt)
               \<lparr>jtor := Some jt\<rparr>)"
    using solve_no_jtor [OF assms(2) assms(1) assms(3)] assms(4,5) by simp
  show ?thesis
    by (simp add: res solve_with_jtor gs_step_def update_plasma_def sp g)
qed

lemma toy_solve:
  "solve toy (toy_eq 2 None Dummy) None None
     = (None, (toy_eq 3 (Some [[3]]) Dummy)
                \<lparr>o_points := Some [Opoint 1 0 3], x_points := Some []\<rparr>)"
  by (simp add: solve_def clear_OX_points_def starting_flux_def psi_full_def
      stabilised_controller_def get_OX_points_def falsy_def gs_step_def update_plasma_def
      solved_plasma_psi_def toy_def toy_eq_def Let_def arr_add_def arr_map2_def arr_map_def
      node_def)

lemma toy_solve_with_jtor:
  "solve toy (toy_eq 2 None Dummy) (Some [[3]]) None = (None, toy_eq 3 (Some [[3]]) Dummy)"
  by (simp add: solve_def clear_OX_points_def gs_step_def update_plasma_def
      solved_plasma_psi_def toy_def toy_eq_def Let_def arr_map2_def arr_map_def)

lemma toy_flux_after_solve:
  "psi_full toy ((toy_eq 3 (Some [[3]]) Dummy)\<lparr>o_points := a, x_points := b\<rparr>)
     = (Inr [[4]], (toy_eq 3 (Some [[3]]) Dummy)\<lparr>o_points := a, x_points := b\<rparr>)"
  by (simp add: psi_full_def stabilised_controller_def toy_def toy_eq_def Let_def
      arr_add_def arr_map2_def arr_map_def)

text \<open>Witness for C3: plasma flux 2, coil flux 1, no feedback.\<close>

theorem solve_refreshes_witness:
  "controller (toy_eq 2 None Dummy) = Some Dummy
   \<and> starting_flux toy (clear_OX_points (toy_eq 2 None Dummy)) None
       = (Inr [[3]], toy_eq 2 None Dummy)
   \<and> find_OX_points toy [[1]] [[0]] [[3]] None = ([Opoint 1 0 3], [])
   \<and> fst (solve toy (toy_eq 2 None Dummy) None None) = None
   \<and> plasma (snd (solve toy (toy_eq 2 None Dummy) None None)) = [[3]]
   \<and> jtor (snd (solve toy (toy_eq 2 None Dummy) None None)) = Some [[3]]
   \<and> o_points (snd (solve toy (toy_eq 2 None Dummy) None None)) = Some [Opoint 1 0 3]
   \<and> o_points (snd (solve toy (toy_eq 2 None Dummy) (Some [[3]]) None)) = None"
proof -
  have c: "controller (toy_eq 2 None Dummy) = Some Dummy"
    by (simp add: toy_eq_def)
  have sf: "starting_flux toy (clear_OX_points (toy_eq 2 None Dummy)) None
       = (Inr [[3]], toy_eq 2 None Dummy)"
    by (simp add: clear_OX_points_def starting_flux_def psi_full_def stabilised_controller_def
        toy_def toy_eq_def Let_def arr_add_def arr_map2_def arr_map_def)
  have f: "find_OX_points toy (st_x (toy_eq 2 None Dummy)) (st_z (toy_eq 2 None Dummy)) [[3]]
             (limiter (toy_eq 2 None Dummy)) = ([Opoint 1 0 3], [])"
    by (simp add: toy_def toy_eq_def node_def)
  have g: "find_OX_points toy [[1]] [[0]] [[3]] None = ([Opoint 1 0 3], [])"
    by (simp add: toy_def node_def)
  have n: "[Opoint 1 0 3] \<noteq> []" by simp
  have j: "[[3]] = profiles_jtor toy (profiles (toy_eq 2 None Dummy))
             (st_x (toy_eq 2 None Dummy)) (st_z (toy_eq 2 None Dummy)) [[3]]
             (Some [Opoint 1 0 3]) (Some [])"
    by (simp add: toy_def toy_eq_def arr_map_def)
  have sp: "PlasmaCoil toy (solved_plasma_psi toy (toy_eq 2 None Dummy) [[3]]) (Some [[3]])
              (grid (toy_eq 2 None Dummy)) = [[3]]"
    by (simp add: solved_plasma_psi_def toy_def toy_eq_def Let_def arr_map2_def arr_map_def)
  from solve_refreshes_plasma_and_current_density [OF c sf f n j, of "[[3]]"]
  show ?thesis
    using c sf g sp by simp
qed

text \<open>
  C3, the claim as stated, refuted: after a successful solve the critical-point cache is
  not consistent with the flux map the solve produced. Starting from the flux 3 the solve
  caches the O-point of flux 3 and produces the flux 4, whose O-point has flux 4; with a
  \<^verbatim>\<open>jtor\<close> argument the cache is empty after the solve.
\<close>

theorem cache_after_solve_is_not_of_the_new_flux:
  "fst (solve toy (toy_eq 2 None Dummy) None None) = None
   \<and> o_points (snd (solve toy (toy_eq 2 None Dummy) None None)) = Some [Opoint 1 0 3]
   \<and> fst (psi_full toy (snd (solve toy (toy_eq 2 None Dummy) None None))) = Inr [[4]]
   \<and> fst (find_OX_points toy [[1]] [[0]] [[4]] None) = [Opoint 1 0 4]
   \<and> \<not> ox_cache_current toy (snd (solve toy (toy_eq 2 None Dummy) None None))
   \<and> fst (solve toy (toy_eq 2 None Dummy) (Some [[3]]) None) = None
   \<and> o_points (snd (solve toy (toy_eq 2 None Dummy) (Some [[3]]) None)) = None
   \<and> \<not> ox_cache_current toy (snd (solve toy (toy_eq 2 None Dummy) (Some [[3]]) None))"
proof -
  have g: "fst (find_OX_points toy [[1]] [[0]] [[4]] None) = [Opoint 1 0 4]"
    by (simp add: toy_def node_def)
  have a: "\<not> ox_cache_current toy
      ((toy_eq 3 (Some [[3]]) Dummy)\<lparr>o_points := Some [Opoint 1 0 3], x_points := Some []\<rparr>)"
    by (simp add: ox_cache_current_def toy_flux_after_solve)
      (simp add: toy_def toy_eq_def node_def)
  have b: "\<not> ox_cache_current toy (toy_eq 3 (Some [[3]]) Dummy)"
    by (simp add: ox_cache_current_def psi_full_def stabilised_controller_def toy_def
        toy_eq_def Let_def)
  have c: "o_points (toy_eq 3 (Some [[3]]) Dummy) = None"
    by (simp add: toy_eq_def)
  show ?thesis
    using g a b c by (simp add: toy_solve toy_solve_with_jtor toy_flux_after_solve)
qed

lemma set_vcontrol_None:
  "set_vcontrol ext s None
     = Inr (s\<lparr>controller := Some (DummyController ext (plasma_psi ext (plasma s)))\<rparr>)"
  by (simp add: set_vcontrol_def)

lemma set_vcontrol_virtual:
  "set_vcontrol ext s (Some ''virtual'')
     = Inr (s\<lparr>controller := Some (VirtualController ext s 2.2)\<rparr>)"
  by (simp add: set_vcontrol_def)

lemma set_vcontrol_unsupported:
  assumes "vc \<noteq> None" and "vc \<noteq> Some ''virtual''"
  shows "set_vcontrol ext s vc
     = Inl (if vc = Some ''feedback'' then NotImplementedError
            else ValueError ''Please select a numerical stabilisation strategy'')"
  using assms by (simp add: set_vcontrol_def)

lemma Equilibrium_init_unsupported:
  assumes "z_max g \<noteq> z_min g" and "vc \<noteq> None" and "vc \<noteq> Some ''virtual''"
  shows "Equilibrium_init ext cs g pr fsym vc lm psi jt fname
     = Inl (if vc = Some ''feedback'' then NotImplementedError
            else ValueError ''Please select a numerical stabilisation strategy'')"
  using assms
  by (simp add: Equilibrium_init_def set_init_plasma_def remap_greens_def Let_def
      set_vcontrol_unsupported)

lemma Equilibrium_init_None:
  assumes "z_max g \<noteq> z_min g"
  shows "case Equilibrium_init ext cs g pr fsym None lm psi jt fname of
           Inl e \<Rightarrow> False
         | Inr s \<Rightarrow> controller s = Some (DummyController ext (plasma_psi ext (plasma s)))
                    \<and> kwargs_vcontrol s = None"
  using assms
  by (simp add: Equilibrium_init_def set_init_plasma_def remap_greens_def Let_def
      set_vcontrol_None)

lemma Equilibrium_init_virtual:
  assumes "z_max g \<noteq> z_min g"
  shows "case Equilibrium_init ext cs g pr fsym (Some ''virtual'') lm psi jt fname of
           Inl e \<Rightarrow> False
         | Inr s \<Rightarrow> controller s
                      = Some (VirtualController ext
                               (s\<lparr>controller := None, limiter := None, filename := None,
                                   kwargs_vcontrol := None\<rparr>) 2.2)
                    \<and> kwargs_vcontrol s = Some ''virtual''"
  using assms
  by (simp add: Equilibrium_init_def set_init_plasma_def remap_greens_def Let_def
      set_vcontrol_virtual)

text \<open>
  C7: \<^verbatim>\<open>set_vcontrol\<close>, and the constructor through it, installs the no-op controller
  for \<^verbatim>\<open>None\<close> and the feedback controller (gain 2.2) for \<^verbatim>\<open>"virtual"\<close>; every other
  selection fails at construction, with \<^verbatim>\<open>NotImplementedError\<close> for \<^verbatim>\<open>"feedback"\<close> and
  \<^verbatim>\<open>ValueError\<close> otherwise. The constructor reaches \<^verbatim>\<open>set_vcontrol\<close> on every grid of
  non-zero height.
\<close>

theorem vertical_control_selection:
  assumes "z_max g \<noteq> z_min g"
  shows "set_vcontrol ext s None
           = Inr (s\<lparr>controller := Some (DummyController ext (plasma_psi ext (plasma s)))\<rparr>)
       \<and> set_vcontrol ext s (Some ''virtual'')
           = Inr (s\<lparr>controller := Some (VirtualController ext s 2.2)\<rparr>)
       \<and> (vc \<noteq> None \<and> vc \<noteq> Some ''virtual'' \<longrightarrow>
            set_vcontrol ext s vc
              = Inl (if vc = Some ''feedback'' then NotImplementedError
                     else ValueError ''Please select a numerical stabilisation strategy'')
            \<and> Equilibrium_init ext cs g pr fsym vc lm psi jt fname
              = Inl (if vc = Some ''feedback'' then NotImplementedError
                     else ValueError ''Please select a numerical stabilisation strategy''))
       \<and> (case Equilibrium_init ext cs g pr fsym None lm psi jt fname of
             Inl e \<Rightarrow> False
           | Inr s' \<Rightarrow>
               controller s' = Some (DummyController ext (plasma_psi ext (plasma s'))))
       \<and> (case Equilibrium_init ext cs g pr fsym (Some ''virtual'') lm psi jt fname of
             Inl e \<Rightarrow> False
           | Inr s' \<Rightarrow>
               controller s'
                 = Some (VirtualController ext
                          (s'\<lparr>controller := None, limiter := None, filename := None,
                               kwargs_vcontrol := None\<rparr>) 2.2))"
proof -
  have a: "case Equilibrium_init ext cs g pr fsym None lm psi jt fname of
             Inl e \<Rightarrow> False
           | Inr s' \<Rightarrow>
               controller s' = Some (DummyController ext (plasma_psi ext (plasma s')))"
    using Equilibrium_init_None [OF assms, of ext cs pr fsym lm psi jt fname]
    by (simp split: sum.splits)
  have b: "case Equilibrium_init ext cs g pr fsym (Some ''virtual'') lm psi jt fname of
             Inl e \<Rightarrow> False
           | Inr s' \<Rightarrow>
               controller s'
                 = Some (VirtualController ext
                          (s'\<lparr>controller := None, limiter := None, filename := None,
                               kwargs_vcontrol := None\<rparr>) 2.2)"
    using Equilibrium_init_virtual [OF assms, of ext cs pr fsym lm psi jt fname]
    by (simp split: sum.splits)
  show ?thesis
    using a b
    by (simp add: set_vcontrol_None set_vcontrol_virtual set_vcontrol_unsupported
        Equilibrium_init_unsupported [OF assms])
qed

lemma toy_init_None:
  "Equilibrium_init toy 1 grid_1 1 False None None (Some [[3]]) None None
     = Inr (toy_eq 2 None Dummy)"
  by (simp add: Equilibrium_init_def set_init_plasma_def remap_greens_def set_vcontrol_def
      toy_def toy_eq_def grid_1_def Let_def arr_map2_def arr_map_def)

lemma toy_init_virtual:
  "Equilibrium_init toy 1 grid_1 1 False (Some ''virtual'') None (Some [[3]]) None None
     = Inr ((toy_eq 2 None (Virtual 2.2 0))\<lparr>kwargs_vcontrol := Some ''virtual''\<rparr>)"
  by (simp add: Equilibrium_init_def set_init_plasma_def remap_greens_def set_vcontrol_def
      toy_def toy_eq_def grid_1_def Let_def arr_map2_def arr_map_def)

text \<open>Witness for C7: the four kinds of selection on the one-node grid.\<close>

theorem vertical_control_selection_witness:
  "z_max grid_1 \<noteq> z_min grid_1
   \<and> Equilibrium_init toy 1 grid_1 1 False None None (Some [[3]]) None None
       = Inr (toy_eq 2 None Dummy)
   \<and> Equilibrium_init toy 1 grid_1 1 False (Some ''virtual'') None (Some [[3]]) None None
       = Inr ((toy_eq 2 None (Virtual 2.2 0))\<lparr>kwargs_vcontrol := Some ''virtual''\<rparr>)
   \<and> Equilibrium_init toy 1 grid_1 1 False (Some ''feedback'') None (Some [[3]]) None None
       = Inl NotImplementedError
   \<and> Equilibrium_init toy 1 grid_1 1 False (Some ''manual'') None (Some [[3]]) None None
       = Inl (ValueError ''Please select a numerical stabilisation strategy'')"
proof -
  have g: "z_max grid_1 \<noteq> z_min grid_1"
    by (simp add: grid_1_def)
  from vertical_control_selection [OF g, where vc = "Some ''feedback''" and ext = toy
      and cs = 1 and pr = 1 and fsym = False and lm = None and psi = "Some [[3]]"
      and jt = None and fname = None]
  have f: "Equilibrium_init toy 1 grid_1 1 False (Some ''feedback'') None (Some [[3]]) None None
       = Inl NotImplementedError"
    by simp
  from vertical_control_selection [OF g, where vc = "Some ''manual''" and ext = toy
      and cs = 1 and pr = 1 and fsym = False and lm = None and psi = "Some [[3]]"
      and jt = None and fname = None]
  have m: "Equilibrium_init toy 1 grid_1 1 False (Some ''manual'') None (Some [[3]]) None None
       = Inl (ValueError ''Please select a numerical stabilisation strategy'')"
    by simp
  show ?thesis
    using g f m by (simp add: toy_init_None toy_init_virtual)
qed

lemma Equilibrium_psi_at:
  "Equilibrium_psi ext s (Some x) (Some z)
     = (Inr (AtPoint (plasma_psi_at ext (plasma s) (Some x) (Some z)
                      + cs_psi ext (coilset s) (Some x) (Some z))), s)"
  by (simp add: Equilibrium_psi_def psi_at_def)

lemma Equilibrium_psi_full:
  assumes "controller s = Some c"
  shows "Equilibrium_psi ext s None None
     = (Inr (FullMap (arr_add (arr_add (plasma_psi ext (plasma s))
                                       (cs_psi_greens ext (coilset s) (psi_green s)))
                              (controller_psi ext (stabilised_controller ext s c)))),
        s\<lparr>controller := Some (stabilised_controller ext s c)\<rparr>)"
  using assms by (simp add: Equilibrium_psi_def psi_full_def Let_def)

text \<open>
  C9: \<^verbatim>\<open>psi(x, z)\<close> with coordinates is the sum of the plasma and coil-set
  contributions and does not depend on the controller; \<^verbatim>\<open>psi()\<close> without coordinates
  adds the controller's correction (after stabilising it). At a grid node where the
  plasma and coil-set maps agree with their point queries, the full map exceeds the point
  query by the controller's correction at that node, so the two differ exactly when that
  correction is not zero.
\<close>

theorem point_query_leaves_out_controller:
  assumes "controller s = Some c"
    and "P = plasma_psi ext (plasma s)"
    and "G = cs_psi_greens ext (coilset s) (psi_green s)"
    and "C = controller_psi ext (stabilised_controller ext s c)"
    and "in_shape P i j" and "in_shape G i j" and "in_shape C i j"
    and "P ! i ! j = plasma_psi_at ext (plasma s) (Some (st_x s ! i ! j)) (Some (st_z s ! i ! j))"
    and "G ! i ! j = cs_psi ext (coilset s) (Some (st_x s ! i ! j)) (Some (st_z s ! i ! j))"
  shows "Equilibrium_psi ext s (Some x) (Some z)
           = (Inr (AtPoint (plasma_psi_at ext (plasma s) (Some x) (Some z)
                            + cs_psi ext (coilset s) (Some x) (Some z))), s)
       \<and> fst (Equilibrium_psi ext (s\<lparr>controller := d\<rparr>) (Some x) (Some z))
           = fst (Equilibrium_psi ext s (Some x) (Some z))
       \<and> Equilibrium_psi ext s None None
           = (Inr (FullMap (arr_add (arr_add P G) C)),
              s\<lparr>controller := Some (stabilised_controller ext s c)\<rparr>)
       \<and> arr_add (arr_add P G) C ! i ! j
           = psi_at ext s (Some (st_x s ! i ! j)) (Some (st_z s ! i ! j)) + C ! i ! j
       \<and> (arr_add (arr_add P G) C ! i ! j
             \<noteq> psi_at ext s (Some (st_x s ! i ! j)) (Some (st_z s ! i ! j))
           \<longleftrightarrow> C ! i ! j \<noteq> 0)"
proof -
  have n: "arr_add (arr_add P G) C ! i ! j = P ! i ! j + G ! i ! j + C ! i ! j"
    using assms(5-7) by (simp add: arr_add_nth arr_add_in_shape)
  have v: "arr_add (arr_add P G) C ! i ! j
      = psi_at ext s (Some (st_x s ! i ! j)) (Some (st_z s ! i ! j)) + C ! i ! j"
    by (simp add: n psi_at_def assms(8,9))
  have f: "Equilibrium_psi ext s None None
           = (Inr (FullMap (arr_add (arr_add P G) C)),
              s\<lparr>controller := Some (stabilised_controller ext s c)\<rparr>)"
    by (simp add: Equilibrium_psi_full [OF assms(1)] assms(2-4))
  show ?thesis
    by (simp add: Equilibrium_psi_at f v)
qed

text \<open>Witness for C9: plasma flux 2, coil flux 1, correction 2 at the one node.\<close>

theorem point_query_witness:
  "controller (toy_eq 2 (Some [[1]]) (Virtual 2 0)) = Some (Virtual 2 0)
   \<and> in_shape [[2]] 0 0 \<and> in_shape [[1]] 0 0
   \<and> Equilibrium_psi toy (toy_eq 2 (Some [[1]]) (Virtual 2 0)) (Some 1) (Some 0)
       = (Inr (AtPoint 3), toy_eq 2 (Some [[1]]) (Virtual 2 0))
   \<and> Equilibrium_psi toy (toy_eq 2 (Some [[1]]) (Virtual 2 0)) None None
       = (Inr (FullMap [[5]]), toy_eq 2 (Some [[1]]) (Virtual 2 2))"
proof -
  let ?s = "toy_eq 2 (Some [[1]]) (Virtual 2 0)"
  have c: "controller ?s = Some (Virtual 2 0)"
    by (simp add: toy_eq_def)
  have P: "[[2]] = plasma_psi toy (plasma ?s)"
    by (simp add: toy_def toy_eq_def)
  have G: "[[1]] = cs_psi_greens toy (coilset ?s) (psi_green ?s)"
    by (simp add: toy_def toy_eq_def arr_map_def)
  have C: "[[2]] = controller_psi toy (stabilised_controller toy ?s (Virtual 2 0))"
    by (simp add: toy_def toy_eq_def stabilised_controller_def)
  have sh: "in_shape [[2]] 0 0" "in_shape [[1]] 0 0"
    by (simp_all add: in_shape_def)
  have pn: "[[2]] ! 0 ! 0 = plasma_psi_at toy (plasma ?s) (Some (st_x ?s ! 0 ! 0))
             (Some (st_z ?s ! 0 ! 0))"
    by (simp add: toy_def toy_eq_def node_def)
  have gn: "[[1]] ! 0 ! 0 = cs_psi toy (coilset ?s) (Some (st_x ?s ! 0 ! 0))
             (Some (st_z ?s ! 0 ! 0))"
    by (simp add: toy_def toy_eq_def)
  have st: "?s\<lparr>controller := Some (stabilised_controller toy ?s (Virtual 2 0))\<rparr>
      = toy_eq 2 (Some [[1]]) (Virtual 2 2)"
    by (simp add: toy_def toy_eq_def stabilised_controller_def)
  have pv: "plasma_psi_at toy (plasma ?s) (Some 1) (Some 0)
      + cs_psi toy (coilset ?s) (Some 1) (Some 0) = 3"
    by (simp add: toy_def toy_eq_def node_def)
  have ad: "arr_add (arr_add [[2]] [[1]]) [[2]] = [[5]]"
    by (simp add: arr_add_def arr_map2_def)
  from point_query_leaves_out_controller [OF c P G C sh(1) sh(2) sh(1) pn gn,
      where x = 1 and z = 0]
  show ?thesis
    using c sh by (simp add: st pv ad)
qed

section \<open>\<^verbatim>\<open>solve_li\<close>: theorems\<close>

lemma psi_full_controller:
  assumes "controller s \<noteq> None"
  shows "\<exists>a c. psi_full ext s = (Inr a, s\<lparr>controller := Some c\<rparr>)"
proof -
  from assms obtain c where c: "controller s = Some c" by blast
  show ?thesis
    by (intro exI) (simp add: psi_full_def c Let_def)
qed

lemma minimise_dli_outcome:
  assumes "controller s \<noteq> None"
  shows "(\<exists>s'. minimise_dli ext p ops xps msk x s = (Inl StopIteration, s')
              \<and> within_tolerance ext s' \<and> controller s' \<noteq> None)
       \<or> (\<exists>v s'. minimise_dli ext p ops xps msk x s = (Inr v, s')
              \<and> \<not> within_tolerance ext s' \<and> controller s' \<noteq> None
              \<and> li_iter s' = li_iter s + 1)"
proof -
  define s1 where "s1 = s\<lparr>profiles := adjust_parameters ext (profiles s) x\<rparr>"
  define jt where "jt = profiles_jtor ext (profiles s1) (st_x s1) (st_z s1) p ops xps"
  define s2 where "s2 = gs_step ext s1 jt"
  have "controller s2 \<noteq> None"
    using assms by (simp add: s2_def s1_def gs_step_def update_plasma_def)
  from psi_full_controller [OF this]
  obtain a c where pf: "psi_full ext s2 = (Inr a, s2\<lparr>controller := Some c\<rparr>)" by blast
  define s3 where "s3 = s2\<lparr>controller := Some c\<rparr>"
  define v where "v = calc_li3minargs ext (st_x s3) (st_z s3) a (Bp_full ext s3)
                            (R_0 ext (profiles s3)) (I_p ext (profiles s3))
                            (st_dx s3) (st_dz s3) msk"
  define s4 where "s4 = s3\<lparr>li_temp := Some v, jtor := Some jt\<rparr>"
  have m: "minimise_dli ext p ops xps msk x s =
      (if abs_rel_difference ext v (li s4) \<le> l_i_rel_tol ext (profiles s4)
       then (Inl StopIteration, s4)
       else (Inr \<bar>li s4 - v\<bar>, s4\<lparr>li_iter := li_iter s4 + 1\<rparr>))"
    using pf unfolding s4_def s3_def v_def s2_def jt_def s1_def
    by (simp add: minimise_dli_def Let_def)
  have c4: "controller s4 \<noteq> None" by (simp add: s4_def s3_def)
  have i4: "li_iter s4 = li_iter s"
    by (simp add: s4_def s3_def s2_def s1_def gs_step_def update_plasma_def)
  show ?thesis
  proof (cases "abs_rel_difference ext v (li s4) \<le> l_i_rel_tol ext (profiles s4)")
    case True
    then have w: "within_tolerance ext s4" by (simp add: within_tolerance_def s4_def)
    from True m have "minimise_dli ext p ops xps msk x s = (Inl StopIteration, s4)"
      by simp
    with w c4 show ?thesis by blast
  next
    case False
    then have w: "\<not> within_tolerance ext (s4\<lparr>li_iter := li_iter s4 + 1\<rparr>)"
      by (simp add: within_tolerance_def s4_def)
    have c: "controller (s4\<lparr>li_iter := li_iter s4 + 1\<rparr>) \<noteq> None"
      using c4 by simp
    have i: "li_iter (s4\<lparr>li_iter := li_iter s4 + 1\<rparr>) = li_iter s + 1"
      using i4 by simp
    from False m have "minimise_dli ext p ops xps msk x s
        = (Inr \<bar>li s4 - v\<bar>, s4\<lparr>li_iter := li_iter s4 + 1\<rparr>)"
      by simp
    with w c i show ?thesis by blast
  qed
qed

lemma run_minimize_outcome:
  assumes "controller s \<noteq> None"
  shows "(\<exists>s'. run_minimize opt (minimise_dli ext p ops xps msk) s = (Inl StopIteration, s')
              \<and> within_tolerance ext s')
       \<or> (\<exists>res s'. run_minimize opt (minimise_dli ext p ops xps msk) s = (Inr res, s'))"
  using assms
proof (induction opt arbitrary: s)
  case (Finish r)
  show ?case by (intro disjI2 exI) simp
next
  case (Evaluate x k)
  from minimise_dli_outcome [OF Evaluate.prems, of ext p ops xps msk x]
  show ?case
  proof (elim disjE exE conjE)
    fix s'
    assume e: "minimise_dli ext p ops xps msk x s = (Inl StopIteration, s')"
      and w: "within_tolerance ext s'"
    have "run_minimize (Evaluate x k) (minimise_dli ext p ops xps msk) s
        = (Inl StopIteration, s')"
      by (simp add: e)
    with w show ?thesis by blast
  next
    fix v s'
    assume e: "minimise_dli ext p ops xps msk x s = (Inr v, s')"
      and c: "controller s' \<noteq> None"
    have r: "run_minimize (Evaluate x k) (minimise_dli ext p ops xps msk) s
        = run_minimize (k v) (minimise_dli ext p ops xps msk) s'"
      by (simp add: e)
    have "k v \<in> range k" by simp
    from Evaluate.IH [OF this c] show ?thesis
      unfolding r .
  qed
qed

lemma minimise_dli_stops_iff:
  assumes "controller t \<noteq> None"
  shows "(fst (minimise_dli ext p ops xps msk x t) = Inl StopIteration
            \<longleftrightarrow> within_tolerance ext (snd (minimise_dli ext p ops xps msk x t)))
       \<and> (fst (minimise_dli ext p ops xps msk x t) = Inl e \<longrightarrow> e = StopIteration)"
  using minimise_dli_outcome [OF assms, of ext p ops xps msk x]
proof (elim disjE exE conjE)
  fix s'
  assume "minimise_dli ext p ops xps msk x t = (Inl StopIteration, s')"
    and "within_tolerance ext s'"
  then show ?thesis by simp
next
  fix v s'
  assume "minimise_dli ext p ops xps msk x t = (Inr v, s')"
    and "\<not> within_tolerance ext s'"
  then show ?thesis by simp
qed

lemma solve_li_unfold:
  assumes "li_flag s" and "controller s = Some c"
    and "starting_flux ext ((clear_OX_points s)\<lparr>li_iter := 0\<rparr>) psi_arg = (Inr p, s2)"
    and "find_OX_points ext (st_x s) (st_z s) p (limiter s) = (ops, xps)"
  shows "solve_li ext s jt psi_arg
           = li_try ext p (Some ops) (Some xps)
               (in_plasma ext (st_x s) (st_z s) p (Some ops) (Some xps))
               (s2\<lparr>o_points := Some ops, x_points := Some xps\<rparr>)
       \<and> controller s2 \<noteq> None"
proof -
  have "controller ((clear_OX_points s)\<lparr>li_iter := 0\<rparr>) = Some c"
    using assms(2) by (simp add: clear_OX_points_def)
  note s2 = starting_flux_cases [OF assms(3) this]
  have f: "st_x s2 = st_x s" "st_z s2 = st_z s" "limiter s2 = limiter s"
    by (simp_all add: s2 clear_OX_points_def)
  have c: "controller s2 \<noteq> None"
    by (subst s2) simp
  have "solve_li ext s jt psi_arg
           = li_try ext p (Some ops) (Some xps)
               (in_plasma ext (st_x s) (st_z s) p (Some ops) (Some xps))
               (s2\<lparr>o_points := Some ops, x_points := Some xps\<rparr>)"
    using assms(1,3,4) by (simp add: solve_li_def Let_def get_OX_points_def starting_flux_Some f)
  with c show ?thesis by simp
qed

text \<open>
  C6: on an equilibrium with an inductance-matching profile and a controller, the
  objective raises \<^verbatim>\<open>StopIteration\<close> exactly when the relative difference between the
  inductance it computed and the target is within the tolerance, and raises nothing else.
  When an evaluation does so the optimiser is left at once and \<^verbatim>\<open>solve_li\<close> returns
  normally, with the state of that evaluation. Otherwise the run of the optimiser ends by
  itself with its result, which \<^verbatim>\<open>process_scipy_result\<close> turns into the final
  coefficients or into an error. The run is the one \<^verbatim>\<open>solve_li\<close> starts: from the
  coefficients of the profile, within the bounds \<open>[-1, 3]\<close>, on the state with the
  critical points of the starting flux.
\<close>

theorem solve_li_early_exit_returns_normally:
  assumes "li_flag s" and "controller s = Some c"
    and "starting_flux ext ((clear_OX_points s)\<lparr>li_iter := 0\<rparr>) psi_arg = (Inr p, s2)"
    and "find_OX_points ext (st_x s) (st_z s) p (limiter s) = (ops, xps)"
    and "msk = in_plasma ext (st_x s) (st_z s) p (Some ops) (Some xps)"
    and "run_minimize
           (minimize ext (shape_coeffs ext (profiles s))
              (map (\<lambda>c. (- 1, 3)) (shape_coeffs ext (profiles s))))
           (minimise_dli ext p (Some ops) (Some xps) msk)
           (s2\<lparr>o_points := Some ops, x_points := Some xps\<rparr>) = (r, s4)"
    and "controller t \<noteq> None"
  shows "(case r of
            Inl e \<Rightarrow> e = StopIteration \<and> within_tolerance ext s4
                     \<and> solve_li ext s jt psi_arg = (None, s4)
          | Inr res \<Rightarrow>
              solve_li ext s jt psi_arg
                = (case process_scipy_result ext res of
                     Inl e \<Rightarrow> (if e = StopIteration then None else Some e, s4)
                   | Inr alpha_star \<Rightarrow>
                       (None, s4\<lparr>profiles := adjust_parameters ext (profiles s4) alpha_star\<rparr>)))
       \<and> (fst (minimise_dli ext p (Some ops) (Some xps) msk x t) = Inl StopIteration
            \<longleftrightarrow> within_tolerance ext (snd (minimise_dli ext p (Some ops) (Some xps) msk x t)))
       \<and> (fst (minimise_dli ext p (Some ops) (Some xps) msk x t) = Inl e
            \<longrightarrow> e = StopIteration)"
proof -
  note u = solve_li_unfold [OF assms(1-4), of jt]
  have "controller ((clear_OX_points s)\<lparr>li_iter := 0\<rparr>) = Some c"
    using assms(2) by (simp add: clear_OX_points_def)
  note s2 = starting_flux_cases [OF assms(3) this]
  have pr: "profiles (s2\<lparr>o_points := Some ops, x_points := Some xps\<rparr>) = profiles s"
    by (simp add: s2 clear_OX_points_def)
  have c3: "controller (s2\<lparr>o_points := Some ops, x_points := Some xps\<rparr>) \<noteq> None"
    using u by simp
  have sl: "solve_li ext s jt psi_arg
      = (case r of
           Inl e \<Rightarrow> if e = StopIteration then (None, s4) else (Some e, s4)
         | Inr res \<Rightarrow>
             (case process_scipy_result ext res of
                Inl e \<Rightarrow> if e = StopIteration then (None, s4) else (Some e, s4)
              | Inr alpha_star \<Rightarrow>
                  (None, s4\<lparr>profiles := adjust_parameters ext (profiles s4) alpha_star\<rparr>)))"
    using u assms(6) by (simp add: li_try_def Let_def pr assms(5) split: sum.splits)
  have main: "case r of
            Inl e \<Rightarrow> e = StopIteration \<and> within_tolerance ext s4
                     \<and> solve_li ext s jt psi_arg = (None, s4)
          | Inr res \<Rightarrow>
              solve_li ext s jt psi_arg
                = (case process_scipy_result ext res of
                     Inl e \<Rightarrow> (if e = StopIteration then None else Some e, s4)
                   | Inr alpha_star \<Rightarrow>
                       (None, s4\<lparr>profiles := adjust_parameters ext (profiles s4) alpha_star\<rparr>))"
  proof (cases r)
    case (Inl e)
    from run_minimize_outcome [OF c3, of _ ext p "Some ops" "Some xps" msk]
      assms(6) Inl
    have "e = StopIteration \<and> within_tolerance ext s4"
      by (metis Inl_Inr_False Pair_inject sum.inject(1))
    with Inl sl show ?thesis by simp
  next
    case (Inr res)
    with sl show ?thesis by (simp split: sum.splits)
  qed
  from main minimise_dli_stops_iff [OF assms(7), of ext p "Some ops" "Some xps" msk x e]
  show ?thesis by blast
qed

lemma toy_li_starting_flux:
  "starting_flux toy_io ((clear_OX_points (toy_li_eq tg))\<lparr>li_iter := 0\<rparr>) None
     = (Inr [[3]], toy_li_eq tg)"
  by (simp add: clear_OX_points_def starting_flux_def psi_full_def stabilised_controller_def
      toy_io_def toy_li_eq_def Let_def arr_add_def arr_map2_def arr_map_def)

lemma toy_li_run_early:
  "run_minimize
     (minimize toy_io (shape_coeffs toy_io (profiles (toy_li_eq 4)))
        (map (\<lambda>c. (- 1, 3)) (shape_coeffs toy_io (profiles (toy_li_eq 4)))))
     (minimise_dli toy_io [[3]] (Some [Opoint 1 0 3]) (Some []) [[True]])
     ((toy_li_eq 4)\<lparr>o_points := Some [Opoint 1 0 3], x_points := Some []\<rparr>)
   = (Inl StopIteration,
      (toy_li_eq 4)\<lparr>o_points := Some [Opoint 1 0 3], x_points := Some [],
                      plasma := [[3]], jtor := Some [[3]], li_temp := Some 4\<rparr>)"
  by (simp add: minimise_dli_def gs_step_def update_plasma_def solved_plasma_psi_def
      psi_full_def stabilised_controller_def toy_io_def toy_li_eq_def Let_def arr_add_def
      arr_map2_def arr_map_def node_def)

lemma toy_li_run_budget:
  "run_minimize
     (minimize toy_io (shape_coeffs toy_io (profiles (toy_li_eq 10)))
        (map (\<lambda>c. (- 1, 3)) (shape_coeffs toy_io (profiles (toy_li_eq 10)))))
     (minimise_dli toy_io [[3]] (Some [Opoint 1 0 3]) (Some []) [[True]])
     ((toy_li_eq 10)\<lparr>o_points := Some [Opoint 1 0 3], x_points := Some []\<rparr>)
   = (Inr [2],
      (toy_li_eq 10)\<lparr>o_points := Some [Opoint 1 0 3], x_points := Some [],
                       profiles := 2, plasma := [[6]], jtor := Some [[6]],
                       li_temp := Some 7, li_iter := 2\<rparr>)"
  by (simp add: minimise_dli_def gs_step_def update_plasma_def solved_plasma_psi_def
      psi_full_def stabilised_controller_def toy_io_def toy_li_eq_def Let_def arr_add_def
      arr_map2_def arr_map_def node_def)

text \<open>
  Witness for C6: with the target 4 the first evaluation computes the inductance 4 and
  stops the optimiser; with the target 10 the two evaluations compute 4 and 7, the
  optimiser finishes by itself and the profile takes its result.
\<close>

theorem solve_li_witness:
  "li_flag (toy_li_eq 4) \<and> controller (toy_li_eq 4) = Some Dummy
   \<and> solve_li toy_io (toy_li_eq 4) None None
       = (None, (toy_li_eq 4)\<lparr>o_points := Some [Opoint 1 0 3], x_points := Some [],
                                 plasma := [[3]], jtor := Some [[3]], li_temp := Some 4\<rparr>)
   \<and> abs_rel_difference toy_io 4 4 \<le> l_i_rel_tol toy_io 1
   \<and> solve_li toy_io (toy_li_eq 10) None None
       = (None, (toy_li_eq 10)\<lparr>o_points := Some [Opoint 1 0 3], x_points := Some [],
                                  profiles := 2, plasma := [[6]], jtor := Some [[6]],
                                  li_temp := Some 7, li_iter := 2\<rparr>)"
proof -
  have f4: "li_flag (toy_li_eq 4)" and c4: "controller (toy_li_eq 4) = Some Dummy"
    and f10: "li_flag (toy_li_eq 10)" and c10: "controller (toy_li_eq 10) = Some Dummy"
    by (simp_all add: toy_li_eq_def)
  have ox: "find_OX_points toy_io (st_x (toy_li_eq tg)) (st_z (toy_li_eq tg)) [[3]]
              (limiter (toy_li_eq tg)) = ([Opoint 1 0 3], [])" for tg
    by (simp add: toy_io_def toy_li_eq_def node_def)
  have mk: "[[True]] = in_plasma toy_io (st_x (toy_li_eq tg)) (st_z (toy_li_eq tg)) [[3]]
              (Some [Opoint 1 0 3]) (Some [])" for tg
    by (simp add: toy_io_def toy_li_eq_def)
  have t: "controller (toy_li_eq 4) \<noteq> None"
    using c4 by simp
  have tol: "abs_rel_difference toy_io 4 4 \<le> l_i_rel_tol toy_io 1"
    by (simp add: toy_io_def)
  from solve_li_early_exit_returns_normally
         [OF f4 c4 toy_li_starting_flux ox mk toy_li_run_early t, where jt = None]
  have a: "solve_li toy_io (toy_li_eq 4) None None
       = (None, (toy_li_eq 4)\<lparr>o_points := Some [Opoint 1 0 3], x_points := Some [],
                                 plasma := [[3]], jtor := Some [[3]], li_temp := Some 4\<rparr>)"
    by simp
  from solve_li_early_exit_returns_normally
         [OF f10 c10 toy_li_starting_flux ox mk toy_li_run_budget t, where jt = None]
  have b: "solve_li toy_io (toy_li_eq 10) None None
       = (None, (toy_li_eq 10)\<lparr>o_points := Some [Opoint 1 0 3], x_points := Some [],
                                  profiles := 2, plasma := [[6]], jtor := Some [[6]],
                                  li_temp := Some 7, li_iter := 2\<rparr>)"
    by (simp add: toy_io_def)
  from f4 c4 a tol b show ?thesis by blast
qed

section \<open>Serialisation: theorems\<close>

lemma same_setup_refl: "same_setup s s"
  by (simp add: same_setup_def)




















section \<open>The charged-particle solver: theorems\<close>

lemma check_params_cases:
  "check_params p =
     (if f_outer_target p + f_inner_target p \<noteq> 1 then
        Inl (AdvectionTransportError ''Inner / outer fractions should sum to 1.0'')
      else if f_upper_target p + f_lower_target p \<noteq> 1 then
        Inl (AdvectionTransportError ''Upper / lower fractions should sum to 1.0'')
      else Inr ())"
  by (simp add: check_params_def)

lemma init_after_check:
  assumes "check_params (upd default_params config) = Inr ()"
  shows "ChargedParticleSolver_init upd ox config e kw \<noteq> Inl (AdvectionTransportError m)"
  using assms
  by (simp add: ChargedParticleSolver_init_def Let_def split: list.splits)

lemma init_check_fails:
  assumes "check_params (upd default_params config) = Inl err"
  shows "ChargedParticleSolver_init upd ox config e kw = Inl err"
  using assms
  by (simp add: ChargedParticleSolver_init_def Let_def)

text \<open>
  C8: the constructor of \<^verbatim>\<open>ChargedParticleSolver\<close> raises \<^verbatim>\<open>AdvectionTransportError\<close>
  exactly when \<^verbatim>\<open>f_outer_target + f_inner_target\<close> or
  \<^verbatim>\<open>f_upper_target + f_lower_target\<close> of the updated parameters is not 1.0; the error is
  raised before the constructor looks at the equilibrium, with the message of the first
  pair that fails. When both pairs sum to 1.0 the check passes.
\<close>

theorem fraction_sums_checked_at_construction:
  assumes "p = upd default_params config"
  shows "((\<exists>m. ChargedParticleSolver_init upd ox config e kw = Inl (AdvectionTransportError m))
            \<longleftrightarrow> (f_outer_target p + f_inner_target p \<noteq> 1
                 \<or> f_upper_target p + f_lower_target p \<noteq> 1))
       \<and> (check_params p = Inr ()
            \<longleftrightarrow> (f_outer_target p + f_inner_target p = 1
                 \<and> f_upper_target p + f_lower_target p = 1))
       \<and> (f_outer_target p + f_inner_target p \<noteq> 1 \<longrightarrow>
            ChargedParticleSolver_init upd ox config e kw
              = Inl (AdvectionTransportError ''Inner / outer fractions should sum to 1.0''))
       \<and> (f_outer_target p + f_inner_target p = 1
            \<and> f_upper_target p + f_lower_target p \<noteq> 1 \<longrightarrow>
            ChargedParticleSolver_init upd ox config e kw
              = Inl (AdvectionTransportError ''Upper / lower fractions should sum to 1.0''))"
proof -
  have c: "check_params p = Inr ()
            \<longleftrightarrow> (f_outer_target p + f_inner_target p = 1
                 \<and> f_upper_target p + f_lower_target p = 1)"
    by (simp add: check_params_cases)
  have a: "f_outer_target p + f_inner_target p \<noteq> 1 \<longrightarrow>
            ChargedParticleSolver_init upd ox config e kw
              = Inl (AdvectionTransportError ''Inner / outer fractions should sum to 1.0'')"
  proof
    assume "f_outer_target p + f_inner_target p \<noteq> 1"
    then have "check_params (upd default_params config)
        = Inl (AdvectionTransportError ''Inner / outer fractions should sum to 1.0'')"
      using assms by (simp add: check_params_cases)
    then show "ChargedParticleSolver_init upd ox config e kw
              = Inl (AdvectionTransportError ''Inner / outer fractions should sum to 1.0'')"
      by (rule init_check_fails)
  qed
  have b: "f_outer_target p + f_inner_target p = 1
            \<and> f_upper_target p + f_lower_target p \<noteq> 1 \<longrightarrow>
            ChargedParticleSolver_init upd ox config e kw
              = Inl (AdvectionTransportError ''Upper / lower fractions should sum to 1.0'')"
  proof
    assume "f_outer_target p + f_inner_target p = 1
            \<and> f_upper_target p + f_lower_target p \<noteq> 1"
    then have "check_params (upd default_params config)
        = Inl (AdvectionTransportError ''Upper / lower fractions should sum to 1.0'')"
      using assms by (simp add: check_params_cases)
    then show "ChargedParticleSolver_init upd ox config e kw
              = Inl (AdvectionTransportError ''Upper / lower fractions should sum to 1.0'')"
      by (rule init_check_fails)
  qed
  have n: "f_outer_target p + f_inner_target p = 1 \<and> f_upper_target p + f_lower_target p = 1
      \<longrightarrow> (\<forall>m. ChargedParticleSolver_init upd ox config e kw
                  \<noteq> Inl (AdvectionTransportError m))"
  proof (intro impI allI)
    fix m
    assume "f_outer_target p + f_inner_target p = 1 \<and> f_upper_target p + f_lower_target p = 1"
    with c assms have "check_params (upd default_params config) = Inr ()" by simp
    then show "ChargedParticleSolver_init upd ox config e kw \<noteq> Inl (AdvectionTransportError m)"
      by (rule init_after_check)
  qed
  from a b n have i: "(\<exists>m. ChargedParticleSolver_init upd ox config e kw
                          = Inl (AdvectionTransportError m))
            \<longleftrightarrow> (f_outer_target p + f_inner_target p \<noteq> 1
                 \<or> f_upper_target p + f_lower_target p \<noteq> 1)"
    by blast
  from i c a b show ?thesis by blast
qed

text \<open>
  Witness for C8: an outer fraction of 0.8 against the default inner fraction 0.25, an
  upper fraction of 0.6 against the default lower fraction 0.5, and the pair 0.5, 0.5.
\<close>

theorem fraction_sums_witness:
  "ChargedParticleSolver_init update_fractions (\<lambda>e. ([Opoint 1 0 3], []))
       [(''f_outer_target'', 0.8)] () None
     = Inl (AdvectionTransportError ''Inner / outer fractions should sum to 1.0'')
   \<and> ChargedParticleSolver_init update_fractions (\<lambda>e. ([Opoint 1 0 3], []))
       [(''f_upper_target'', 0.6)] () None
     = Inl (AdvectionTransportError ''Upper / lower fractions should sum to 1.0'')
   \<and> ChargedParticleSolver_init update_fractions (\<lambda>e. ([Opoint 1 0 3], []))
       [(''f_outer_target'', 0.5), (''f_inner_target'', 0.5)] () None
     = Inr \<lparr> cps_params = default_params\<lparr>f_outer_target := 0.5, f_inner_target := 0.5\<rparr>,
             dx_mp = 0.001, cps_eq = (), o_point = Opoint 1 0 3 \<rparr>"
proof -
  have a: "f_outer_target (update_fractions default_params [(''f_outer_target'', 0.8)])
         + f_inner_target (update_fractions default_params [(''f_outer_target'', 0.8)]) \<noteq> 1"
    by (simp add: update_fractions_def default_params_def)
  have b: "f_outer_target (update_fractions default_params [(''f_upper_target'', 0.6)])
         + f_inner_target (update_fractions default_params [(''f_upper_target'', 0.6)]) = 1
       \<and> f_upper_target (update_fractions default_params [(''f_upper_target'', 0.6)])
         + f_lower_target (update_fractions default_params [(''f_upper_target'', 0.6)]) \<noteq> 1"
    by (simp add: update_fractions_def default_params_def)
  have c: "ChargedParticleSolver_init update_fractions (\<lambda>e. ([Opoint 1 0 3], []))
       [(''f_outer_target'', 0.5), (''f_inner_target'', 0.5)] () None
     = Inr \<lparr> cps_params = default_params\<lparr>f_outer_target := 0.5, f_inner_target := 0.5\<rparr>,
             dx_mp = 0.001, cps_eq = (), o_point = Opoint 1 0 3 \<rparr>"
    by (simp add: ChargedParticleSolver_init_def check_params_def update_fractions_def
        default_params_def Let_def)
  from fraction_sums_checked_at_construction [OF refl, where upd = update_fractions
      and config = "[(''f_outer_target'', 0.8)]" and ox = "\<lambda>e. ([Opoint 1 0 3], [])"
      and e = "()" and kw = None] a
  have x: "ChargedParticleSolver_init update_fractions (\<lambda>e. ([Opoint 1 0 3], []))
       [(''f_outer_target'', 0.8)] () None
     = Inl (AdvectionTransportError ''Inner / outer fractions should sum to 1.0'')"
    by blast
  from fraction_sums_checked_at_construction [OF refl, where upd = update_fractions
      and config = "[(''f_upper_target'', 0.6)]" and ox = "\<lambda>e. ([Opoint 1 0 3], [])"
      and e = "()" and kw = None] b
  have y: "ChargedParticleSolver_init update_fractions (\<lambda>e. ([Opoint 1 0 3], []))
       [(''f_upper_target'', 0.6)] () None
     = Inl (AdvectionTransportError ''Upper / lower fractions should sum to 1.0'')"
    by blast
  from x y c show ?thesis by blast
qed

end
